theory Spec2Isabelle
  imports Complex_Main "HOL-Library.Sublist" "HOL-Library.AList"
begin

section \<open>Strings\<close>

text \<open>
  Program text is a list of 8-bit characters. The model speaks about ASCII text: case
  mapping acts on the letters A to Z and the white space of a regular expression is the
  six ASCII white-space characters. The three non-ASCII marker glyphs that open some log
  lines are kept as the bytes they have in the source file.
\<close>

definition isSpace :: "char \<Rightarrow> bool" where
  "isSpace c = (c \<in> set [CHR 0x09, CHR 0x0A, CHR 0x0B, CHR 0x0C, CHR 0x0D, CHR 0x20])"

definition toLowerChar :: "char \<Rightarrow> char" where
  "toLowerChar c =
     (case map_of (zip ''ABCDEFGHIJKLMNOPQRSTUVWXYZ'' ''abcdefghijklmnopqrstuvwxyz'') c of
        Some l \<Rightarrow> l
      | None \<Rightarrow> c)"

text \<open>\<^verbatim>\<open>s.toLowerCase()\<close>\<close>

definition toLowerCase :: "string \<Rightarrow> string" where
  "toLowerCase s = map toLowerChar s"

text \<open>\<^verbatim>\<open>s.includes(w)\<close>: \<open>w\<close> occurs in \<open>s\<close> as a contiguous run.\<close>

fun includes_str :: "string \<Rightarrow> string \<Rightarrow> bool" where
  "includes_str [] w = (w = [])"
| "includes_str (c # cs) w = (prefix w (c # cs) \<or> includes_str cs w)"

text \<open>
  \<^verbatim>\<open>s.split(/\s+/)\<close>: the pieces between maximal runs of white space. White space at
  the start or the end of \<open>s\<close> leaves an empty piece there, and the empty string splits
  into one empty piece.
\<close>

function splitWs :: "string \<Rightarrow> string list" where
  "splitWs [] = [[]]"
| "splitWs (c # cs) =
     (if isSpace c then [] # splitWs (dropWhile isSpace cs)
      else (case splitWs cs of [] \<Rightarrow> [[c]] | t # ts \<Rightarrow> (c # t) # ts))"
  by pat_completeness auto
termination
  by (relation "measure length") (auto simp: length_dropWhile_le less_Suc_eq_le)

text \<open>
  \<^verbatim>\<open>s.split(sep)\<close> for a non-empty separator string: the pieces between the
  occurrences of \<open>sep\<close>, scanned from the left.
\<close>

function splitOn :: "string \<Rightarrow> string \<Rightarrow> string list" where
  "splitOn sep s =
     (if sep \<noteq> [] \<and> prefix sep s then [] # splitOn sep (drop (length sep) s)
      else (case s of
              [] \<Rightarrow> [[]]
            | c # cs \<Rightarrow> (case splitOn sep cs of [] \<Rightarrow> [[c]] | t # ts \<Rightarrow> (c # t) # ts)))"
  by pat_completeness auto
termination
  by (relation "measure (\<lambda>(sep, s). length s)") (auto simp: prefix_def)

declare splitOn.simps [simp del]

text \<open>Decimal rendering of a number inside a template string.\<close>

fun digits :: "nat \<Rightarrow> string \<Rightarrow> string" where
  "digits n acc =
     (if n < 10 then (''0123456789'' ! n) # acc
      else digits (n div 10) ((''0123456789'' ! (n mod 10)) # acc))"

declare digits.simps [simp del]

definition show_nat :: "nat \<Rightarrow> string" where
  "show_nat n = digits n []"

text \<open>\<^verbatim>\<open>xs.join(sep)\<close>\<close>

fun join :: "string \<Rightarrow> string list \<Rightarrow> string" where
  "join sep [] = []"
| "join sep [x] = x"
| "join sep (x # y # ys) = x @ sep @ join sep (y # ys)"

section \<open>Values\<close>

text \<open>
  What \<^verbatim>\<open>JSON.parse\<close> returns and \<^verbatim>\<open>JSON.stringify\<close> takes: the values of the
  run-time type \<^verbatim>\<open>any\<close>. \<open>JDate\<close> is a \<^verbatim>\<open>Date\<close> object (milliseconds), which
  only the program itself creates.
\<close>

datatype json =
    JNull
  | JBool bool
  | JNum rat
  | JStr string
  | JArr "json list"
  | JObj "(string \<times> json) list"
  | JDate nat

text \<open>The exceptions that occur, with their message.\<close>

datatype js_error = Error string | SyntaxError string | TypeError string

fun message :: "js_error \<Rightarrow> string" where
  "message (Error m) = m"
| "message (SyntaxError m) = m"
| "message (TypeError m) = m"

text \<open>An exception inside a template string: its name, a colon, its message.\<close>

fun errorToString :: "js_error \<Rightarrow> string" where
  "errorToString (Error m) = ''Error: '' @ m"
| "errorToString (SyntaxError m) = ''SyntaxError: '' @ m"
| "errorToString (TypeError m) = ''TypeError: '' @ m"


section \<open>Data model\<close>

text \<open>
  Modelled from the spec: the type declarations of the repository (\<^verbatim>\<open>types.ts\<close>)
  are not part of the sources; the records below follow the data model of the
  specification and the members the code reads and writes. A \<^verbatim>\<open>Map\<close> keeps its keys in insertion
  order and the code iterates over it, so it is an association list, written with
  \<^const>\<open>AList.update\<close> (\<^verbatim>\<open>set\<close>) and read with \<^const>\<open>map_of\<close> (\<^verbatim>\<open>get\<close>).
\<close>

record Message =
  msg_role :: string
  msg_content :: string

record GrokApiRequest =
  messages :: "Message list"
  model :: string
  temperature :: rat
  max_tokens :: nat

record AgentContext =
  userPrompt :: string
  results :: "(string \<times> string) list"
  errors :: "string list"
  stepCount :: nat
  maxSteps :: nat

record AgentMemory =
  agentRole :: string
  memoryType :: string
  content :: json
  timestamp :: nat
  relevanceScore :: nat
  retentionFlags :: "string list"

record MemoryAnalysisResult =
  relevantMemories :: json
  prunedMemories :: json
  contextSummary :: json
  cleanupRecommendations :: json

text \<open>
  The object \<^verbatim>\<open>createMemoryAnalysisAgent\<close> returns, and what \<^verbatim>\<open>createAgentWithRole\<close>
  adds to it. The read paths of the file tools are resolved against the working directory
  of the process and are left out.
\<close>

record Agent =
  name :: string
  description :: string
  systemPrompt :: string

record RoleAgent = Agent +
  capabilities :: "string list"
  writePaths :: "string list"
  allowExec :: bool

record AgentStep =
  agent :: RoleAgent
  role :: string
  inputMap :: "AgentContext \<Rightarrow> string"
  outputKey :: "string option"

record AgentPipeline =
  pipeline_id :: string
  pipeline_name :: string
  pipeline_description :: string
  enabled :: bool
  steps :: "AgentStep list"

record PipelineResult =
  success :: bool
  finalResult :: string
  resultContext :: AgentContext
  executionLog :: "string list"
  agentMemories :: "(string \<times> AgentMemory list) list option"

text \<open>
  One entry of the plan the workflow director returns. The plan is a parsed value of type
  \<^verbatim>\<open>any\<close>; its entries are read as the planner's prompt prescribes them: two texts,
  two flags that count as false when absent, and an optional key.
\<close>

record PlannedStep =
  planned_agent :: string
  instructions :: string
  required :: bool
  iterativeFeedback :: bool
  feedbackOutput :: "string option"

section \<open>The environment\<close>

text \<open>
  Everything outside the orchestrator:
  \<^item> \<open>post\<close> is the HTTP call of the API client, as a function of the requests made
    before and of the request: \<open>Inl\<close> the message of whatever was thrown on the way,
    \<open>Inr\<close> the content of the first choice (empty when the reply has none);
  \<^item> \<open>now\<close> is the clock, read after the given requests;
  \<^item> \<open>JSON_parse\<close> is \<^verbatim>\<open>JSON.parse\<close>, \<open>Inl\<close> the message of its \<^verbatim>\<open>SyntaxError\<close>;
  \<^item> \<open>JSON_stringify\<close> and \<open>JSON_stringify_indent\<close> are \<^verbatim>\<open>JSON.stringify(v)\<close> and
    \<^verbatim>\<open>JSON.stringify(v, null, 2)\<close>;
  \<^item> \<open>planOf\<close> reads the member \<^verbatim>\<open>steps\<close> of a parsed plan as a list of planned
    steps, \<open>None\<close> when the value has no such array (reading its length throws).
\<close>

record env =
  post :: "GrokApiRequest list \<Rightarrow> GrokApiRequest \<Rightarrow> string + string"
  now :: "GrokApiRequest list \<Rightarrow> nat"
  JSON_parse :: "string \<Rightarrow> string + json"
  JSON_stringify :: "json \<Rightarrow> string"
  JSON_stringify_indent :: "json \<Rightarrow> string"
  planOf :: "json \<Rightarrow> PlannedStep list option"

text \<open>
  \<^verbatim>\<open>EnhancedGrokApiClient.chat\<close>: the reply's content, a fixed text in place of an empty
  one; every failure is rethrown as an \<^verbatim>\<open>Error\<close> with a fixed prefix. The second
  component is the list of requests made so far.
\<close>

definition chat :: "env \<Rightarrow> GrokApiRequest list \<Rightarrow> GrokApiRequest \<Rightarrow> (js_error + string) \<times> GrokApiRequest list" where
  "chat E h request =
     (case post E h request of
        Inl m \<Rightarrow> (Inl (Error (''Failed to communicate with Grok API: '' @ m)), h @ [request])
      | Inr c \<Rightarrow> (Inr (if c = [] then ''No response from Grok'' else c), h @ [request]))"

text \<open>\<^verbatim>\<open>a || b\<close> on an optional text: the empty text counts as absent.\<close>

definition orElse :: "string option \<Rightarrow> string \<Rightarrow> string" where
  "orElse a b = (case a of None \<Rightarrow> b | Some s \<Rightarrow> if s = [] then b else s)"

text \<open>
  \<^verbatim>\<open>response.split('```json')[1]?.split('```')[0] || response\<close>: the text between the
  first fence that opens a JSON block and the next fence, the whole response when there
  is no such fence or nothing between the two.
\<close>

definition extractPayload :: "string \<Rightarrow> string" where
  "extractPayload response =
     orElse (case splitOn ''```json'' response of
               _ # p # _ \<Rightarrow> (case splitOn ''```'' p of q # _ \<Rightarrow> Some q | [] \<Rightarrow> None)
             | _ \<Rightarrow> None)
            response"

section \<open>Memory engine\<close>

definition getMemoryTypeForRole :: "string \<Rightarrow> string" where
  "getMemoryTypeForRole agentRole' =
     orElse (map_of
       [(''interpreter'', ''requirements-analysis''),
        (''analysis'', ''codebase-analysis''),
        (''retrieval'', ''code-snippets''),
        (''judge'', ''quality-assessment''),
        (''coder'', ''implementation-patterns''),
        (''quality-judge'', ''testing-insights''),
        (''supervisor'', ''pipeline-optimization'')] agentRole')
       ''general-experience''"

definition createMemoryAnalysisAgent :: "string \<Rightarrow> string \<Rightarrow> Agent" where
  \<open>createMemoryAnalysisAgent targetRole memoryType' =
   \<lparr>name =
targetRole @ ''-memory-agent'',
    description =
''Memory analysis agent for '' @ targetRole,
    systemPrompt =
     ''You are a specialized memory analysis agent for the "'' @ targetRole @
     ''" role. Your task is to analyze completed work and extract key learnings, insights, and contextual information that should be stored as memories for future use.\<newline>'' @
     ''\<newline>'' @
     ''You must respond with a JSON object containing:\<newline>'' @
     ''{\<newline>'' @
     ''  "keyInsights": ["string"],\<newline>'' @
     ''  "technicalDecisions": ["string"],\<newline>'' @
     ''  "contextInformation": ["string"],\<newline>'' @
     ''  "learnings": ["string"],\<newline>'' @
     ''  "relevanceAssessment": number // 1-10 scale\<newline>'' @
     ''}\<newline>'' @
     ''\<newline>'' @
     ''Focus on information that would be valuable for:\<newline>'' @
     ''- Future iterations of similar tasks\<newline>'' @
     ''- Other agents needing context\<newline>'' @
     ''- System improvement and learning\<newline>'' @
     ''- Pattern recognition and reuse\<newline>'' @
     ''\<newline>'' @
     ''Be specific, actionable, and focused on long-term value.''\<rparr>\<close>

text \<open>The loop of \<^verbatim>\<open>calculateMemoryRelevance\<close> over the words of the prompt.\<close>

fun countWords :: "string \<Rightarrow> string list \<Rightarrow> nat \<Rightarrow> nat" where
  "countWords memoryText [] score = score"
| "countWords memoryText (word # promptWords) score =
     countWords memoryText promptWords
       (if length word > 3 \<and> includes_str memoryText word then score + 1 else score)"

definition calculateMemoryRelevance :: "env \<Rightarrow> json \<Rightarrow> string \<Rightarrow> nat" where
  "calculateMemoryRelevance E memoryContent userPrompt' =
     (let promptWords = splitWs (toLowerCase userPrompt');
          memoryText = toLowerCase (JSON_stringify E memoryContent)
      in min (countWords memoryText promptWords 0) 10)"

definition determineRetentionFlags :: "env \<Rightarrow> string \<Rightarrow> json \<Rightarrow> string list" where
  "determineRetentionFlags E agentRole' memoryContent =
     (if agentRole' = ''interpreter'' then [''core-interpretation'', ''permanent-retention''] else []) @
     (if agentRole' = ''coder'' \<or> agentRole' = ''analysis''
      then [''implementation-patterns'', ''technical-decisions''] else []) @
     (if includes_str agentRole' ''judge'' then [''quality-insights'', ''error-prevention''] else []) @
     (if includes_str (JSON_stringify E memoryContent) ''error'' \<or>
         includes_str (JSON_stringify E memoryContent) ''bug'' \<or>
         includes_str (JSON_stringify E memoryContent) ''fix''
      then [''problem-resolution''] else [])"

definition memoryPrompt :: "env \<Rightarrow> string \<Rightarrow> json \<Rightarrow> string \<Rightarrow> AgentContext \<Rightarrow> string" where
  \<open>memoryPrompt E agentRole' output userPrompt' context' =
     ''Based on your role as "'' @ agentRole' @ ''" in this development pipeline:\<newline>'' @
     ''\<newline>'' @
     ''Original User Request: "'' @ userPrompt' @ ''"\<newline>'' @
     ''Your Work Output: "'' @ take 2000 (JSON_stringify E output) @ ''"\<newline>'' @
     ''Pipeline Context: '' @ show_nat (length (results context')) @ '' total results generated\<newline>'' @
     ''\<newline>'' @
     ''Create a memory entry that captures the most important learnings, insights, or contextual information that other agents (or future iterations of yourself) should remember. Focus on:\<newline>'' @
     ''\<newline>'' @
     ''1. **Key Insights** you gained about the user\'s requirements\<newline>'' @
     ''2. **Technical Decisions** you made and why\<newline>'' @
     ''3. **Context Information** that\'s relevant for related future tasks\<newline>'' @
     ''4. **Patterns or Lessons** that could help with similar work\<newline>'' @
     ''\<newline>'' @
     ''Keep it concise but comprehensive - this memory will be used to improve future pipeline executions.''\<close>

text \<open>
  \<^verbatim>\<open>generateAgentMemory\<close> throws what the request throws and what \<^verbatim>\<open>JSON.parse\<close>
  throws; both callers catch it.
\<close>

definition memoryRequest :: "env \<Rightarrow> string \<Rightarrow> json \<Rightarrow> string \<Rightarrow> AgentContext \<Rightarrow> GrokApiRequest" where
  "memoryRequest E agentRole' output userPrompt' context' =
     (let mType = getMemoryTypeForRole agentRole';
          memoryAgent = createMemoryAnalysisAgent agentRole' mType;
          prompt = memoryPrompt E agentRole' output userPrompt' context'
      in \<lparr>messages = [\<lparr>msg_role = ''system'', msg_content = systemPrompt memoryAgent\<rparr>,
                      \<lparr>msg_role = ''user'', msg_content = prompt\<rparr>],
          model = ''grok-code-fast-1'', temperature = 1/10, max_tokens = 1000\<rparr>)"

definition generateAgentMemory ::
  "env \<Rightarrow> string \<Rightarrow> json \<Rightarrow> string \<Rightarrow> AgentContext \<Rightarrow> GrokApiRequest list
    \<Rightarrow> (js_error + AgentMemory) \<times> GrokApiRequest list" where
  "generateAgentMemory E agentRole' output userPrompt' context' h =
     (let mType = getMemoryTypeForRole agentRole';
          (response, h') = chat E h (memoryRequest E agentRole' output userPrompt' context')
      in case response of
           Inl e \<Rightarrow> (Inl e, h')
         | Inr text \<Rightarrow>
             (case JSON_parse E (extractPayload text) of
                Inl m \<Rightarrow> (Inl (SyntaxError m), h')
              | Inr memoryContent \<Rightarrow>
                  (Inr \<lparr>agentRole = agentRole',
                        memoryType = mType,
                        content = memoryContent,
                        timestamp = now E h',
                        relevanceScore = calculateMemoryRelevance E memoryContent userPrompt',
                        retentionFlags = determineRetentionFlags E agentRole' memoryContent\<rparr>, h')))"

section \<open>Memory pruner\<close>

definition createMemoryPruningAgent :: Agent where
  \<open>createMemoryPruningAgent =
   \<lparr>name = ''memory-pruner-agent'',
    description = ''Intelligent memory cleanup and pruning agent'',
    systemPrompt =
     ''You are the Memory Pruning Agent, a highly sophisticated AI specializing in intelligent memory management for agent pipelines.\<newline>'' @
     ''\<newline>'' @
     ''Your MISSION:\<newline>'' @
     ''- ANALYZE: Examine all agent memories against current task needs\<newline>'' @
     ''- PRESERVE: Always maintain the original user prompt interpretation\<newline>'' @
     ''- PRUNE: Remove irrelevant, outdated, or redundant memories\<newline>'' @
     ''- OPTIMIZE: Keep useful context while reducing cognitive load\<newline>'' @
     ''- RECOMMEND: Provide insights for better memory management\<newline>'' @
     ''\<newline>'' @
     ''KEY PRINCIPLES:\<newline>'' @
     ''1. **Original Interpretation FIRST**: The interpreter agent\'s understanding is sacred\<newline>'' @
     ''2. **Task Relevance SECOND**: Memories must relate to current work\<newline>'' @
     ''3. **Signal vs Noise THIRD**: Useful information over accumulated clutter\<newline>'' @
     ''4. **Learning Opportunities**: Identify patterns for future improvement\<newline>'' @
     ''\<newline>'' @
     ''ALWAYS respond with valid JSON. Focus on creating cleaner, more focused memory contexts for optimal agent performance.''\<rparr>\<close>

text \<open>The object \<^verbatim>\<open>{ agent: agentName, ...memory }\<close>.\<close>

definition memoryEntry :: "string \<Rightarrow> AgentMemory \<Rightarrow> json" where
  "memoryEntry agentName memory =
     JObj [(''agent'', JStr agentName),
           (''agentRole'', JStr (agentRole memory)),
           (''memoryType'', JStr (memoryType memory)),
           (''content'', content memory),
           (''timestamp'', JDate (timestamp memory)),
           (''relevanceScore'', JNum (of_nat (relevanceScore memory))),
           (''retentionFlags'', JArr (map JStr (retentionFlags memory)))]"

text \<open>\<^verbatim>\<open>Array.from(agentMemories.entries()).flatMap(...)\<close>\<close>

definition flattenMemories :: "(string \<times> AgentMemory list) list \<Rightarrow> json list" where
  "flattenMemories agentMemories' =
     concat (map (\<lambda>(agentName, memories). map (memoryEntry agentName) memories) agentMemories')"

definition pruningPrompt :: "env \<Rightarrow> string \<Rightarrow> string \<Rightarrow> json list \<Rightarrow> string" where
  \<open>pruningPrompt E originalUserPrompt currentPrompt allMemories =
     ''MEMORY PRUNING ANALYSIS:\<newline>'' @
     ''\<newline>'' @
     ''ORIGINAL USER PROMPT: "'' @ originalUserPrompt @ ''"\<newline>'' @
     ''CURRENT TASK CONTEXT: "'' @ currentPrompt @ ''"\<newline>'' @
     ''\<newline>'' @
     ''ALL RECORDED MEMORIES FROM PIPELINE EXECUTION:\<newline>'' @
     JSON_stringify_indent E (JArr (take 10 allMemories)) @ '' // Limit to prevent token overflow\<newline>'' @
     ''\<newline>'' @
     ''INSTRUCTIONS:\<newline>'' @
     ''1. EVALUATE all memories against the CURRENT TASK CONTEXT\<newline>'' @
     ''2. RETAIN the original interpretation (highest priority)\<newline>'' @
     ''3. KEEP memories directly relevant to current work\<newline>'' @
     ''4. PRUNE outdated, irrelevant, or redundant information\<newline>'' @
     ''5. FOCUS on maintaining core understanding while reducing noise\<newline>'' @
     ''\<newline>'' @
     ''PROVIDE ANALYSIS IN THIS JSON FORMAT:\<newline>'' @
     ''{\<newline>'' @
     ''  "coreInterpretationMemory": { /* the original interpreter memory */ },\<newline>'' @
     ''  "relevantMemories": [ /* list of memories to keep */ ],\<newline>'' @
     ''  "prunedMemories": [ /* list of memories to discard */ ],\<newline>'' @
     ''  "contextSummary": "Summary of what\'s retained vs removed",\<newline>'' @
     ''  "cleanupRecommendations": ["suggestions for future memory management"]\<newline>'' @
     ''}\<newline>'' @
     ''\<newline>'' @
     ''BE CAREFUL: Preserve the original prompt interpretation but intelligently prune based on relevance to current task.''\<close>

text \<open>
  Whether a value counts as true, and the member \<^verbatim>\<open>analysis.key || dflt\<close> of a parsed
  value: reading a member of \<^verbatim>\<open>null\<close> throws, a value that is no object has none of
  the four members read here.
\<close>

fun truthy :: "json \<Rightarrow> bool" where
  "truthy JNull = False"
| "truthy (JBool b) = b"
| "truthy (JNum n) = (n \<noteq> 0)"
| "truthy (JStr s) = (s \<noteq> [])"
| "truthy (JArr _) = True"
| "truthy (JObj _) = True"
| "truthy (JDate _) = True"

fun memberOr :: "json \<Rightarrow> string \<Rightarrow> json \<Rightarrow> js_error + json" where
  "memberOr JNull key dflt =
     Inl (TypeError (''Cannot read properties of null (reading '' @ [CHR 0x27] @ key @ [CHR 0x27] @ '')''))"
| "memberOr (JObj kvs) key dflt =
     (case map_of kvs key of
        Some v \<Rightarrow> Inr (if truthy v then v else dflt)
      | None \<Rightarrow> Inr dflt)"
| "memberOr _ key dflt = Inr dflt"

text \<open>The fallback of \<^verbatim>\<open>pruneAgentMemories\<close>, returned from its \<^verbatim>\<open>catch\<close> block.\<close>

definition fallbackPruning :: "json list \<Rightarrow> MemoryAnalysisResult" where
  "fallbackPruning allMemories =
     \<lparr>relevantMemories = JArr (take 5 allMemories),
      prunedMemories = JArr (drop 5 allMemories),
      contextSummary = JStr ''Automatic pruning performed due to parsing error'',
      cleanupRecommendations = JArr [JStr ''Implement better JSON parsing for memory analysis'']\<rparr>"

text \<open>The \<^verbatim>\<open>try\<close> block of \<^verbatim>\<open>pruneAgentMemories\<close>.\<close>

definition readAnalysis :: "env \<Rightarrow> string \<Rightarrow> js_error + MemoryAnalysisResult" where
  "readAnalysis E response =
     (case JSON_parse E (extractPayload response) of
        Inl m \<Rightarrow> Inl (SyntaxError m)
      | Inr analysis \<Rightarrow>
          (case memberOr analysis ''relevantMemories'' (JArr []) of
             Inl e \<Rightarrow> Inl e
           | Inr relevant \<Rightarrow>
          (case memberOr analysis ''prunedMemories'' (JArr []) of
             Inl e \<Rightarrow> Inl e
           | Inr pruned \<Rightarrow>
          (case memberOr analysis ''contextSummary'' (JStr ''Memory analysis completed'') of
             Inl e \<Rightarrow> Inl e
           | Inr summary \<Rightarrow>
          (case memberOr analysis ''cleanupRecommendations'' (JArr []) of
             Inl e \<Rightarrow> Inl e
           | Inr recommendations \<Rightarrow>
               Inr \<lparr>relevantMemories = relevant,
                    prunedMemories = pruned,
                    contextSummary = summary,
                    cleanupRecommendations = recommendations\<rparr>)))))"

text \<open>
  \<^verbatim>\<open>pruneAgentMemories\<close>. The request is made outside the \<^verbatim>\<open>try\<close> block: when it
  fails the method throws.
\<close>

definition pruningRequest :: "env \<Rightarrow> string \<Rightarrow> string \<Rightarrow> json list \<Rightarrow> GrokApiRequest" where
  "pruningRequest E originalUserPrompt currentPrompt allMemories =
     (let pruningAgent = createMemoryPruningAgent;
          prompt = pruningPrompt E originalUserPrompt currentPrompt allMemories
      in \<lparr>messages = [\<lparr>msg_role = ''system'', msg_content = systemPrompt pruningAgent\<rparr>,
                      \<lparr>msg_role = ''user'', msg_content = prompt\<rparr>],
          model = ''grok-code-fast-1'', temperature = 1/10, max_tokens = 1500\<rparr>)"

definition pruneAgentMemories ::
  "env \<Rightarrow> string \<Rightarrow> (string \<times> AgentMemory list) list \<Rightarrow> string \<Rightarrow> GrokApiRequest list
    \<Rightarrow> (js_error + MemoryAnalysisResult) \<times> GrokApiRequest list" where
  "pruneAgentMemories E originalUserPrompt agentMemories' currentPrompt h =
     (let allMemories = flattenMemories agentMemories';
          (response, h') = chat E h (pruningRequest E originalUserPrompt currentPrompt allMemories)
      in case response of
           Inl e \<Rightarrow> (Inl e, h')
         | Inr text \<Rightarrow>
             (case readAnalysis E text of
                Inr result \<Rightarrow> (Inr result, h')
              | Inl parseError \<Rightarrow> (Inr (fallbackPruning allMemories), h')))"

section \<open>Agents\<close>

definition createAgentWithRole :: "string \<Rightarrow> string \<Rightarrow> string \<Rightarrow> RoleAgent" where
  "createAgentWithRole name' role' systemPrompt' =
     \<lparr>name = name' @ ''-agent'',
      description = role' @ '' agent for multi-agent pipelines'',
      systemPrompt = systemPrompt',
      capabilities = [role', ''multi-agent'', ''specialized''],
      writePaths = [''.''],
      allowExec = (includes_str role' ''analysis'' \<or> includes_str role' ''supervisor'')\<rparr>"

definition systemPrompts :: "(string \<times> string) list" where
  \<open>systemPrompts =
     [(''interpreter'',
          ''You are an expert requirements interpreter. Your role is to:\<newline>'' @
          ''- Break down user requests into clear, actionable tasks\<newline>'' @
          ''- Identify technical components, languages, frameworks needed\<newline>'' @
          ''- Determine what specific outcomes are required\<newline>'' @
          ''- Provide strategic guidance for subsequent agents\<newline>'' @
          ''\<newline>'' @
          ''Focus on understanding INTENT and providing clear interpretations that guide technical execution.''),
      (''analysis'',
          ''You are a code analysis expert. Your role is to:\<newline>'' @
          ''- Examine project structure and identify relevant files\<newline>'' @
          ''- Analyze existing code patterns and architectures\<newline>'' @
          ''- Determine what code needs to be modified or created\<newline>'' @
          ''- Provide detailed technical assessments\<newline>'' @
          ''- Use file reading/analysis tools to understand context\<newline>'' @
          ''\<newline>'' @
          ''Provide comprehensive analysis that other agents can use to make informed decisions.''),
      (''retrieval'',
          ''You are a precision code retriever. Your role is to:\<newline>'' @
          ''- Extract verbatim code segments from specified files\<newline>'' @
          ''- Preserve exact imports, signatures, comments, and formatting\<newline>'' @
          ''- Handle cross-file dependencies accurately\<newline>'' @
          ''- Provide complete, accurate code snippets\<newline>'' @
          ''- Focus on precision and completeness\<newline>'' @
          ''\<newline>'' @
          ''Every character must be preserved exactly as it appears in the source code.''),
      (''coder'',
          ''You are a production code generation expert. Your role is to:\<newline>'' @
          ''- Write high-quality, production-ready code\<newline>'' @
          ''- Implement exact requirements and specifications\<newline>'' @
          ''- Follow best practices, patterns, and conventions\<newline>'' @
          ''- Include proper error handling and documentation\<newline>'' @
          ''- Generate immediately buildable and runnable code\<newline>'' @
          ''\<newline>'' @
          ''Focus on quality, correctness, and production-readiness.''),
      (''judge'',
          ''You are a quality assurance expert. Your role is to:\<newline>'' @
          ''- Validate code quality and correctness\<newline>'' @
          ''- Identify syntax, logic, and integration issues\<newline>'' @
          ''- Assess completeness and appropriateness\<newline>'' @
          ''- Provide specific, actionable feedback\<newline>'' @
          ''- Ensure production readiness\<newline>'' @
          ''\<newline>'' @
          ''Be thorough, critical, and specific in your evaluations.''),
      (''quality-judge'',
          ''You are a quality assurance expert. Your role is to:\<newline>'' @
          ''- Validate code quality and correctness\<newline>'' @
          ''- Identify syntax, logic, and integration issues\<newline>'' @
          ''- Assess completeness and appropriateness\<newline>'' @
          ''- Provide specific, actionable feedback\<newline>'' @
          ''- Ensure production readiness\<newline>'' @
          ''\<newline>'' @
          ''Be thorough, critical, and specific in your evaluations.''),
      (''supervisor'',
          ''You are the pipeline supervisor. Your role is to:\<newline>'' @
          ''- Monitor overall pipeline execution\<newline>'' @
          ''- Ensure successful completion of objectives\<newline>'' @
          ''- Handle coordination and quality control\<newline>'' @
          ''- Provide final assessments and deliverables\<newline>'' @
          ''- Maintain pipeline integrity\<newline>'' @
          ''\<newline>'' @
          ''Focus on successful task completion and quality outcomes.'')]\<close>

definition getSystemPromptForAgent :: "string \<Rightarrow> string" where
  "getSystemPromptForAgent agentRole' =
     orElse (map_of systemPrompts agentRole') (''You are a specialized '' @ agentRole' @ '' agent.'')"

section \<open>The registered pipelines\<close>

text \<open>A value of the results inside a template string: \<^verbatim>\<open>undefined\<close> when the key is absent.\<close>

definition getText :: "AgentContext \<Rightarrow> string \<Rightarrow> string" where
  "getText ctx key = (case map_of (results ctx) key of Some v \<Rightarrow> v | None \<Rightarrow> ''undefined'')"

definition createCodeDevelopmentSteps :: "AgentStep list" where
  \<open>createCodeDevelopmentSteps =
    (let interpreterAgent = createAgentWithRole ''interpreter'' ''interpret''
         (''Expert at understanding user requirements...'');
         analysisAgent = createAgentWithRole ''analysis'' ''analyze''
         (''Code analysis expert...'');
         codeRetrievalAgent = createAgentWithRole ''retrieval'' ''retrieve''
         (''Precision code retriever...'');
         judgeAgent = createAgentWithRole ''judge'' ''judge''
         (''Code appropriateness judge...'');
         coderAgent = createAgentWithRole ''coder'' ''code''
         (''Production code generation expert...'');
         qualityJudgeAgent = createAgentWithRole ''quality-judge'' ''quality-check''
         (''Quality assurance expert...'');
         supervisorAgent = createAgentWithRole ''supervisor'' ''supervise''
         (''Pipeline supervisor...'')
     in
     [\<lparr>agent = interpreterAgent,
      role = ''interpreter'',
      inputMap = (\<lambda>ctx.
        ''Analyze this user request and provide a clear interpretation: "'' @ userPrompt ctx @
        ''"''),
      outputKey = Some ''interpretation''\<rparr>,
      \<lparr>agent = analysisAgent,
      role = ''analysis'',
      inputMap = (\<lambda>ctx.
        ''Using this interpretation "'' @ getText ctx ''interpretation'' @ ''", analyze the codebase and identify relevant files and components. Focus on what needs to be modified or created.''),
      outputKey = Some ''analysis''\<rparr>,
      \<lparr>agent = codeRetrievalAgent,
      role = ''retrieval'',
      inputMap = (\<lambda>ctx.
        ''Based on this analysis "'' @ getText ctx ''analysis'' @ ''", extract the exact relevant code segments from the identified files. Preserve all type signatures, imports, and comments verbatim.''),
      outputKey = Some ''code_segments''\<rparr>,
      \<lparr>agent = judgeAgent,
      role = ''judge'',
      inputMap = (\<lambda>ctx.
        ''Evaluate if these code segments "'' @ getText ctx ''code_segments'' @
        ''" are appropriate for the task "'' @ userPrompt ctx @ ''". Provide specific feedback on relevance and completeness.''),
      outputKey = Some ''judgment''\<rparr>,
      \<lparr>agent = coderAgent,
      role = ''coder'',
      inputMap = (\<lambda>ctx.
        ''Generate production code for "'' @ userPrompt ctx @ ''" using this context:\<newline>'' @
        ''        - Interpretation: '' @ getText ctx ''interpretation'' @ ''\<newline>'' @
        ''        - Analysis: '' @ getText ctx ''analysis'' @ ''\<newline>'' @
        ''        - Code segments: '' @ getText ctx ''code_segments'' @ ''\<newline>'' @
        ''        - Judge feedback: '' @ getText ctx ''judgment'' @ ''\<newline>'' @
        ''\<newline>'' @
        ''        Write complete, functional code following best practices.''),
      outputKey = Some ''generated_code''\<rparr>,
      \<lparr>agent = qualityJudgeAgent,
      role = ''quality-check'',
      inputMap = (\<lambda>ctx.
        ''Review this generated code "'' @ getText ctx ''generated_code'' @ ''" for the task "'' @
        userPrompt ctx @ ''". Check syntax, logic, integration, and provide detailed feedback on any issues.''),
      outputKey = Some ''quality_assessment''\<rparr>,
      \<lparr>agent = supervisorAgent,
      role = ''supervisor'',
      inputMap = (\<lambda>ctx.
        ''\<newline>'' @
        ''Pipeline Summary:\<newline>'' @
        ''        - Steps completed: '' @ show_nat (stepCount ctx) @ ''/'' @ show_nat (maxSteps ctx) @
        ''\<newline>'' @
        ''        - Errors encountered: '' @ (if length (errors ctx) > 0 then join '', '' (errors ctx) else ''None'') @
        ''\<newline>'' @
        ''        - Final result ready: '' @ (if map_of (results ctx) ''generated_code'' \<noteq> None then ''true'' else ''false'') @
        ''\<newline>'' @
        ''\<newline>'' @
        ''        Provide overall pipeline success assessment and final deliverable.''),
      outputKey = Some ''final_summary''\<rparr>])\<close>

definition createAnalysisSteps :: "AgentStep list" where
  \<open>createAnalysisSteps =
    (let analysisOnlyAgent = createAgentWithRole ''analyzer'' ''analyze''
         (''You are a specialized code analysis agent. Your role is to:\<newline>'' @
          ''    - Perform comprehensive code analysis without generating new code\<newline>'' @
          ''    - Identify patterns, issues, and optimization opportunities\<newline>'' @
          ''    - Provide detailed technical recommendations\<newline>'' @
          ''    - Suggest architectural improvements and best practices\<newline>'' @
          ''    - Focus on analysis, not implementation'')
     in
     [\<lparr>agent = analysisOnlyAgent,
      role = ''analyzer'',
      inputMap = (\<lambda>ctx.
        ''Perform comprehensive analysis on: "'' @ userPrompt ctx @ ''". Provide detailed technical insights, recommendations, and best practices.''),
      outputKey = Some ''analysis''\<rparr>])\<close>

text \<open>\<^verbatim>\<open>initializePipelines\<close>: the content of \<^verbatim>\<open>this.pipelines\<close> after construction.\<close>

definition initializePipelines :: "(string \<times> AgentPipeline) list" where
  "initializePipelines =
     [(''code-development'',
       \<lparr>pipeline_id = ''code-development'',
        pipeline_name = ''Code Development Pipeline'',
        pipeline_description = ''Full software development pipeline with specialized agents'',
        enabled = True,
        steps = createCodeDevelopmentSteps\<rparr>),
      (''analysis-only'',
       \<lparr>pipeline_id = ''analysis-only'',
        pipeline_name = ''Analysis Pipeline'',
        pipeline_description = ''Analysis and recommendation pipeline without code generation'',
        enabled = True,
        steps = createAnalysisSteps\<rparr>)]"

definition getAvailablePipelines :: "(string \<times> AgentPipeline) list \<Rightarrow> AgentPipeline list" where
  "getAvailablePipelines pipelines = filter enabled (map snd pipelines)"

section \<open>Execution state\<close>

text \<open>
  What a run mutates: the context, the execution log, the memories collected per agent
  name, and the requests made so far.
\<close>

record run =
  run_context :: AgentContext
  run_log :: "string list"
  run_memories :: "(string \<times> AgentMemory list) list"
  run_calls :: "GrokApiRequest list"

definition pushLog :: "string \<Rightarrow> run \<Rightarrow> run" where
  "pushLog line st = st\<lparr>run_log := run_log st @ [line]\<rparr>"

definition pushError :: "string \<Rightarrow> run \<Rightarrow> run" where
  "pushError msg st = st\<lparr>run_context := (run_context st)\<lparr>errors := errors (run_context st) @ [msg]\<rparr>\<rparr>"

text \<open>
  \<^verbatim>\<open>if (!agentMemories.has(agentName)) agentMemories.set(agentName, []);
  agentMemories.get(agentName)!.push(memory)\<close>
\<close>

definition addMemory :: "string \<Rightarrow> AgentMemory \<Rightarrow> (string \<times> AgentMemory list) list \<Rightarrow> (string \<times> AgentMemory list) list" where
  "addMemory agentName memory memories =
     AList.update agentName
       ((case map_of memories agentName of None \<Rightarrow> [] | Some ms \<Rightarrow> ms) @ [memory]) memories"

definition agentRequest :: "string \<Rightarrow> string \<Rightarrow> GrokApiRequest" where
  "agentRequest systemPrompt' prompt =
     \<lparr>messages = [\<lparr>msg_role = ''system'', msg_content = systemPrompt'\<rparr>,
                  \<lparr>msg_role = ''user'', msg_content = prompt\<rparr>],
      model = ''grok-code-fast-1'', temperature = 2/10, max_tokens = 2000\<rparr>"

section \<open>Static pipelines\<close>

text \<open>
  One pass through the body of the loop of \<^verbatim>\<open>executePipeline\<close>, for the step at index
  \<open>i\<close> of \<open>n\<close>. The flag says whether the request failed. The pause after a successful
  step changes no state and has no counterpart here.
\<close>

definition executeStep :: "env \<Rightarrow> nat \<Rightarrow> nat \<Rightarrow> AgentStep \<Rightarrow> run \<Rightarrow> bool \<times> run" where
  "executeStep E n i step st =
     (let st1 = st\<lparr>run_context := (run_context st)\<lparr>stepCount := i + 1\<rparr>\<rparr>;
          st2 = pushLog (''Executing step '' @ show_nat (i + 1) @ ''/'' @ show_nat n @ '': '' @ role step) st1;
          prompt = inputMap step (run_context st2);
          (response, h) = chat E (run_calls st2) (agentRequest (systemPrompt (agent step)) prompt);
          st3 = st2\<lparr>run_calls := h\<rparr>
      in case response of
           Inr text \<Rightarrow>
             (let st4 = (case outputKey step of
                           None \<Rightarrow> st3
                         | Some key \<Rightarrow>
                             if key = [] then st3
                             else st3\<lparr>run_context := (run_context st3)
                                    \<lparr>results := AList.update key text (results (run_context st3))\<rparr>\<rparr>)
              in (False, pushLog (''Step '' @ role step @ '' completed successfully'') st4))
         | Inl error \<Rightarrow>
             (let errorMsg = ''Step '' @ role step @ '' failed: '' @ message error
              in (True, pushLog (''ERROR: '' @ errorMsg) (pushError errorMsg st3))))"

text \<open>The loop of \<^verbatim>\<open>executePipeline\<close>: it leaves when the step of the supervisor fails.\<close>

fun executeSteps :: "env \<Rightarrow> nat \<Rightarrow> nat \<Rightarrow> AgentStep list \<Rightarrow> run \<Rightarrow> run" where
  "executeSteps E n i [] st = st"
| "executeSteps E n i (step # rest) st =
     (let (failed, st') = executeStep E n i step st
      in if failed \<and> role step = ''supervisor'' then st'
         else executeSteps E n (i + 1) rest st')"

definition initialContext :: "string \<Rightarrow> nat \<Rightarrow> AgentContext" where
  "initialContext userPrompt' maxSteps' =
     \<lparr>userPrompt = userPrompt', results = [], errors = [], stepCount = 0, maxSteps = maxSteps'\<rparr>"

definition executePipeline ::
  "env \<Rightarrow> (string \<times> AgentPipeline) list \<Rightarrow> string \<Rightarrow> string \<Rightarrow> GrokApiRequest list
    \<Rightarrow> (js_error + PipelineResult) \<times> GrokApiRequest list" where
  "executePipeline E pipelines pipelineId userPrompt' h =
     (case map_of pipelines pipelineId of
        None \<Rightarrow> (Inl (Error (''Pipeline '' @ pipelineId @ '' not found or disabled'')), h)
      | Some pipeline \<Rightarrow>
          if \<not> enabled pipeline
          then (Inl (Error (''Pipeline '' @ pipelineId @ '' not found or disabled'')), h)
          else
            (let st = executeSteps E (length (steps pipeline)) 0 (steps pipeline)
                        \<lparr>run_context = initialContext userPrompt' (length (steps pipeline)),
                         run_log = [], run_memories = [], run_calls = h\<rparr>
             in (Inr \<lparr>success = (length (errors (run_context st)) = 0),
                      finalResult =
                        orElse (map_of (results (run_context st)) ''final_summary'')
                          (orElse (map_of (results (run_context st)) ''generated_code'')
                             ''Pipeline completed''),
                      resultContext = run_context st,
                      executionLog = run_log st,
                      agentMemories = None\<rparr>,
                 run_calls st)))"

section \<open>Static pipelines with memory\<close>

text \<open>
  The body of the loop of \<^verbatim>\<open>executePipelineWithMemory\<close>. A memory is generated after a
  successful step that has an output key; a failure to generate it is logged and nothing
  else.
\<close>

definition executeStepWithMemory ::
  "env \<Rightarrow> string \<Rightarrow> nat \<Rightarrow> nat \<Rightarrow> AgentStep \<Rightarrow> run \<Rightarrow> bool \<times> run" where
  "executeStepWithMemory E userPrompt' n i step st =
     (let st1 = st\<lparr>run_context := (run_context st)\<lparr>stepCount := i + 1\<rparr>\<rparr>;
          st2 = pushLog (''Executing step '' @ show_nat (i + 1) @ ''/'' @ show_nat n @ '': '' @ role step) st1;
          prompt = inputMap step (run_context st2);
          (response, h) = chat E (run_calls st2) (agentRequest (systemPrompt (agent step)) prompt);
          st3 = st2\<lparr>run_calls := h\<rparr>
      in case response of
           Inr text \<Rightarrow>
             (let st4 = (case outputKey step of
                           None \<Rightarrow> st3
                         | Some key \<Rightarrow>
                             if key = [] then st3
                             else
                               (let st5 = st3\<lparr>run_context := (run_context st3)
                                            \<lparr>results := AList.update key text (results (run_context st3))\<rparr>\<rparr>;
                                    (memory, h') = generateAgentMemory E (role step) (JStr text)
                                                     userPrompt' (run_context st5) (run_calls st5);
                                    st6 = st5\<lparr>run_calls := h'\<rparr>
                                in case memory of
                                     Inr m \<Rightarrow>
                                       pushLog (''Memory generated for '' @ role step)
                                         (st6\<lparr>run_memories := addMemory (role step @ ''-agent'') m (run_memories st6)\<rparr>)
                                   | Inl memoryError \<Rightarrow>
                                       pushLog (''Memory generation failed for '' @ role step @ '': '' @
                                                errorToString memoryError) st6))
              in (False, pushLog (''Step '' @ role step @ '' completed successfully'') st4))
         | Inl error \<Rightarrow>
             (let errorMsg = ''Step '' @ role step @ '' failed: '' @ message error
              in (True, pushLog (''ERROR: '' @ errorMsg) (pushError errorMsg st3))))"

text \<open>The loop of \<^verbatim>\<open>executePipelineWithMemory\<close>: it runs every step.\<close>

fun executeStepsWithMemory :: "env \<Rightarrow> string \<Rightarrow> nat \<Rightarrow> nat \<Rightarrow> AgentStep list \<Rightarrow> run \<Rightarrow> run" where
  "executeStepsWithMemory E userPrompt' n i [] st = st"
| "executeStepsWithMemory E userPrompt' n i (step # rest) st =
     executeStepsWithMemory E userPrompt' n (i + 1) rest
       (snd (executeStepWithMemory E userPrompt' n i step st))"

text \<open>\<^verbatim>\<open>storeAgentMemories\<close>, on the memory store of the orchestrator.\<close>

definition storeAgentMemories ::
  "env \<Rightarrow> GrokApiRequest list \<Rightarrow> string \<Rightarrow> (string \<times> AgentMemory list) list
    \<Rightarrow> (string \<times> AgentMemory list) list \<Rightarrow> (string \<times> AgentMemory list) list" where
  "storeAgentMemories E h pipelineId memories memoryStore =
     (let key = ''pipeline-'' @ pipelineId @ ''-'' @ show_nat (now E h)
      in AList.update key (concat (map snd memories)) memoryStore)"

definition executePipelineWithMemory ::
  "env \<Rightarrow> (string \<times> AgentPipeline) list \<Rightarrow> (string \<times> AgentMemory list) list \<Rightarrow> string \<Rightarrow> string
    \<Rightarrow> GrokApiRequest list
    \<Rightarrow> (js_error + PipelineResult) \<times> GrokApiRequest list \<times> (string \<times> AgentMemory list) list" where
  "executePipelineWithMemory E pipelines memoryStore pipelineId userPrompt' h =
     (case map_of pipelines pipelineId of
        None \<Rightarrow> (Inl (Error (''Pipeline '' @ pipelineId @ '' not found or disabled'')), h, memoryStore)
      | Some pipeline \<Rightarrow>
          if \<not> enabled pipeline
          then (Inl (Error (''Pipeline '' @ pipelineId @ '' not found or disabled'')), h, memoryStore)
          else
            (let st = executeStepsWithMemory E userPrompt' (length (steps pipeline)) 0 (steps pipeline)
                        \<lparr>run_context = initialContext userPrompt' (length (steps pipeline)),
                         run_log = [], run_memories = [], run_calls = h\<rparr>
             in (Inr \<lparr>success = (length (errors (run_context st)) = 0),
                      finalResult =
                        orElse (map_of (results (run_context st)) ''final_summary'')
                          (orElse (map_of (results (run_context st)) ''generated_code'')
                             ''Pipeline completed''),
                      resultContext = run_context st,
                      executionLog = run_log st,
                      agentMemories = Some (run_memories st)\<rparr>,
                 run_calls st,
                 storeAgentMemories E (run_calls st) pipelineId (run_memories st) memoryStore)))"

section \<open>Intelligent orchestration\<close>

text \<open>The marker glyphs of the log, as the bytes of the source file.\<close>

definition crossMark :: string where
  "crossMark = [CHR 0xE2, CHR 0x80, CHR 0x9A, CHR 0xC3, CHR 0xB9, CHR 0xC3, CHR 0xA5]"

definition targetMark :: string where
  "targetMark = [CHR 0xEF, CHR 0xA3, CHR 0xBF, CHR 0xC3, CHR 0xBC, CHR 0xC3, CHR 0xA9, CHR 0xC3, CHR 0x98]"

definition cycleMark :: string where
  "cycleMark = [CHR 0xEF, CHR 0xA3, CHR 0xBF, CHR 0xC3, CHR 0xBC, CHR 0xC3, CHR 0xAE, CHR 0xC3, CHR 0x91]"

text \<open>
  \<^verbatim>\<open>executeSingleAgent\<close>: one request in the given role. The result is stored under the
  role's own key and counted as a step; the flag is the \<^verbatim>\<open>success\<close> it returns.
\<close>

definition singleAgentRequest :: "string \<Rightarrow> string \<Rightarrow> GrokApiRequest" where
  "singleAgentRequest agentRole' instructions' =
     (let agent' = createAgentWithRole agentRole' agentRole' (getSystemPromptForAgent agentRole')
      in agentRequest (systemPrompt agent') instructions')"

definition executeSingleAgent ::
  "env \<Rightarrow> string \<Rightarrow> string \<Rightarrow> string \<Rightarrow> run \<Rightarrow> bool \<times> run" where
  "executeSingleAgent E agentRole' instructions' userPrompt' st =
     (let st1 = pushLog (''Executing '' @ agentRole' @ '' agent...'') st;
          (response, h) = chat E (run_calls st1) (singleAgentRequest agentRole' instructions');
          st2 = st1\<lparr>run_calls := h\<rparr>
      in case response of
           Inr text \<Rightarrow>
             (let outputKey' = agentRole' @ ''_result'';
                  st3 = st2\<lparr>run_context := (run_context st2)
                          \<lparr>results := AList.update outputKey' text (results (run_context st2)),
                           stepCount := stepCount (run_context st2) + 1\<rparr>\<rparr>;
                  (memory, h') = generateAgentMemory E agentRole'
                                   (JObj [(''instructions'', JStr instructions'), (''response'', JStr text)])
                                   userPrompt' (run_context st3) (run_calls st3);
                  st4 = st3\<lparr>run_calls := h'\<rparr>;
                  st5 = (case memory of
                           Inr m \<Rightarrow> st4\<lparr>run_memories := addMemory (agentRole' @ ''-agent'') m (run_memories st4)\<rparr>
                         | Inl memoryError \<Rightarrow>
                             pushLog (''Memory generation failed for '' @ agentRole' @ '': '' @
                                      errorToString memoryError) st4)
              in (True, pushLog (agentRole' @ '' completed successfully'') st5))
         | Inl error \<Rightarrow>
             (let errorMsg = agentRole' @ '' failed: '' @ message error
              in (False, pushLog (crossMark @ '' '' @ errorMsg) (pushError errorMsg st2))))"

definition workflowDirectorPrompt :: string where
  \<open>workflowDirectorPrompt =
     ''You are a workflow director who determines the optimal sequence of agents to execute based on user requirements.\<newline>'' @
     ''\<newline>'' @
     ''Available agents and their capabilities:\<newline>'' @
     ''- ANALYSIS: Examines codebase structure, finds relevant files, analyzes dependencies\<newline>'' @
     ''- RETRIEVAL: Extracts verbatim code segments from specific files\<newline>'' @
     ''- CODER: Generates new code or modifies existing code\<newline>'' @
     ''- JUDGE: Validates code quality, appropriateness, and completeness\<newline>'' @
     ''\<newline>'' @
     ''Your task: Analyze the interpretation and create an optimal workflow of agents. Return JSON:\<newline>'' @
     ''{\<newline>'' @
     ''  "steps": [\<newline>'' @
     ''    {\<newline>'' @
     ''      "agent": "analysis|retrieval|coder|judge",\<newline>'' @
     ''      "instructions": "Detailed instructions for this agent",\<newline>'' @
     ''      "required": true|false,\<newline>'' @
     ''      "iterativeFeedback": true|false (if this step can iterate),\<newline>'' @
     ''      "feedbackOutput": "output_key_to_check" (for iteration)\<newline>'' @
     ''    }\<newline>'' @
     ''  ]\<newline>'' @
     ''}''\<close>

definition fallbackSteps :: "string \<Rightarrow> PlannedStep list" where
  "fallbackSteps interpretation =
     [\<lparr>planned_agent = ''analysis'',
       instructions = ''Analyze codebase for: '' @ interpretation,
       required = True, iterativeFeedback = False, feedbackOutput = None\<rparr>,
      \<lparr>planned_agent = ''coder'',
       instructions = ''Generate code based on analysis: '' @ interpretation,
       required = True, iterativeFeedback = False, feedbackOutput = None\<rparr>,
      \<lparr>planned_agent = ''judge'',
       instructions = ''Review the generated code for quality and correctness'',
       required = False, iterativeFeedback = False, feedbackOutput = None\<rparr>]"

text \<open>The fallback plan as the object the code builds, which the log line prints.\<close>

definition fallbackPlan :: "string \<Rightarrow> json" where
  "fallbackPlan interpretation =
     JObj [(''steps'', JArr
       [JObj [(''agent'', JStr ''analysis''),
              (''instructions'', JStr (''Analyze codebase for: '' @ interpretation)),
              (''required'', JBool True)],
        JObj [(''agent'', JStr ''coder''),
              (''instructions'', JStr (''Generate code based on analysis: '' @ interpretation)),
              (''required'', JBool True)],
        JObj [(''agent'', JStr ''judge''),
              (''instructions'', JStr ''Review the generated code for quality and correctness''),
              (''required'', JBool False)]])]"

definition planningRequest :: "string \<Rightarrow> string \<Rightarrow> GrokApiRequest" where
  \<open>planningRequest interpretation originalPrompt =
     \<lparr>messages =
        [\<lparr>msg_role = ''system'',
          msg_content = systemPrompt (createAgentWithRole ''workflow-director'' ''orchestrate'' workflowDirectorPrompt)\<rparr>,
         \<lparr>msg_role = ''user'',
          msg_content =
            ''User Request: "'' @ originalPrompt @ ''"\<newline>'' @
            ''Interpretation: "'' @ interpretation @ ''"\<newline>'' @
            ''\<newline>'' @
            ''Determine the optimal workflow sequence of agents.''\<rparr>],
      model = ''grok-code-fast-1'', temperature = 1/10, max_tokens = 1500\<rparr>\<close>

text \<open>
  \<^verbatim>\<open>determineWorkflowFromInterpretation\<close>: the parsed plan with its steps, the fallback
  plan when the response does not parse. The request is not guarded: its failure is
  thrown to the caller.
\<close>

definition determineWorkflowFromInterpretation ::
  "env \<Rightarrow> string \<Rightarrow> string \<Rightarrow> GrokApiRequest list
    \<Rightarrow> (js_error + json \<times> PlannedStep list option) \<times> GrokApiRequest list" where
  "determineWorkflowFromInterpretation E interpretation originalPrompt h =
     (let (response, h') = chat E h (planningRequest interpretation originalPrompt)
      in case response of
           Inl e \<Rightarrow> (Inl e, h')
         | Inr text \<Rightarrow>
             (case JSON_parse E (extractPayload text) of
                Inr plan \<Rightarrow> (Inr (plan, planOf E plan), h')
              | Inl e \<Rightarrow> (Inr (fallbackPlan interpretation, Some (fallbackSteps interpretation)), h')))"

definition interpreterInstructions :: "string \<Rightarrow> string" where
  \<open>interpreterInstructions userPrompt' =
     ''Analyze this user request and determine what needs to be done: "'' @
     userPrompt' @ ''"\<newline>'' @
     ''\<newline>'' @
     ''Based on the request, decide which AGENT should run NEXT and provide specific instructions for that agent.\<newline>'' @
     ''\<newline>'' @
     ''Available agents:\<newline>'' @
     ''- ANALYSIS: Codebase examination and structure analysis\<newline>'' @
     ''- RETRIEVAL: Specific code extraction and verbatim copying\<newline>'' @
     ''- CODER: Code generation and implementation\<newline>'' @
     ''- JUDGE: Quality assessment and validation\<newline>'' @
     ''\<newline>'' @
     ''Choose the most appropriate next agent and provide detailed instructions for what it should accomplish.''\<close>

text \<open>
  Whether the output stored under the feedback key asks for another round:
  \<^verbatim>\<open>qualityCheck.toLowerCase().includes(...)\<close> for the three marker texts.
\<close>

definition needsIteration :: "string \<Rightarrow> bool" where
  "needsIteration qualityCheck =
     (includes_str (toLowerCase qualityCheck) ''error'' \<or>
      includes_str (toLowerCase qualityCheck) ''issues'' \<or>
      includes_str (toLowerCase qualityCheck) ''fix needed'')"

definition iterationInstructions :: "PlannedStep \<Rightarrow> string \<Rightarrow> string" where
  \<open>iterationInstructions step qualityCheck =
     instructions step @ ''\<newline>'' @
     ''\<newline>'' @
     ''PREVIOUS FEEDBACK FROM QUALITY CHECK:\<newline>'' @
     qualityCheck @ ''\<newline>'' @
     ''\<newline>'' @
     ''Please address these issues and improve the solution.''\<close>

text \<open>
  The feedback part of the loop body: when the step declares iterative feedback and the
  results hold its feedback key, and the text there asks for it, the same role runs once
  more. The outcome of that second run is not looked at.
\<close>

definition iterateStep :: "env \<Rightarrow> string \<Rightarrow> PlannedStep \<Rightarrow> run \<Rightarrow> run" where
  "iterateStep E userPrompt' step st =
     (case (if iterativeFeedback step then feedbackOutput step else None) of
        None \<Rightarrow> st
      | Some key \<Rightarrow>
          (case map_of (results (run_context st)) key of
             None \<Rightarrow> st
           | Some v \<Rightarrow>
               (let qualityCheck = orElse (Some v) []
                in if needsIteration qualityCheck
                   then snd (executeSingleAgent E (planned_agent step)
                               (iterationInstructions step qualityCheck) userPrompt'
                               (pushLog (cycleMark @ '' Quality issues detected - sending feedback to '' @
                                         planned_agent step @ '' for iteration'') st))
                   else st)))"

text \<open>
  The loop over the planned steps: it leaves when a required step fails, before the
  feedback part of that step.
\<close>

fun executeWorkflow :: "env \<Rightarrow> string \<Rightarrow> PlannedStep list \<Rightarrow> run \<Rightarrow> run" where
  "executeWorkflow E userPrompt' [] st = st"
| "executeWorkflow E userPrompt' (step # rest) st =
     (let (result, st') = executeSingleAgent E (planned_agent step) (instructions step) userPrompt' st
      in if \<not> result \<and> required step
         then pushLog (crossMark @ '' Required step '' @ [CHR 0x27] @ planned_agent step @ [CHR 0x27] @
                       '' failed - stopping workflow'') st'
         else executeWorkflow E userPrompt' rest (iterateStep E userPrompt' step st'))"

definition supervisorInstructions :: "string \<Rightarrow> string \<Rightarrow> run \<Rightarrow> string" where
  \<open>supervisorInstructions userPrompt' interpretation st =
     ''\<newline>'' @
     ''Pipeline Completion Summary:\<newline>'' @
     ''      - Original Request: "'' @ userPrompt' @ ''"\<newline>'' @
     ''      - Interpretation: '' @ interpretation @ ''\<newline>'' @
     ''      - Steps Executed: '' @ show_nat (length (filter (\<lambda>l. includes_str l ''completed'') (run_log st))) @
     ''\<newline>'' @
     ''      - Results Generated: '' @ join ''\<newline>        '' (map (\<lambda>(k, v). k @ '': '' @ take 100 v @ ''...'') (results (run_context st))) @
     ''\<newline>'' @
     ''\<newline>'' @
     ''      Provide the final deliverable and completion assessment.''\<close>

text \<open>
  \<^verbatim>\<open>executeIntelligentOrchestration\<close>. A failed interpretation returns at once. The
  method throws when the planning request fails and when the parsed plan has no array of
  steps.
\<close>

definition executeIntelligentOrchestration ::
  "env \<Rightarrow> string \<Rightarrow> GrokApiRequest list \<Rightarrow> (js_error + PipelineResult) \<times> GrokApiRequest list" where
  "executeIntelligentOrchestration E userPrompt' h =
     (let st0 = \<lparr>run_context = initialContext userPrompt' 10,
                 run_log = [], run_memories = [], run_calls = h\<rparr>;
          (interpreterResult, st1) =
             executeSingleAgent E ''interpreter'' (interpreterInstructions userPrompt') userPrompt' st0
      in if \<not> interpreterResult
         then (Inr \<lparr>success = False,
                    finalResult = ''Interpretation failed - cannot determine next steps'',
                    resultContext = run_context st1,
                    executionLog = run_log st1 @ [crossMark @ '' Pipeline failed at interpretation stage''],
                    agentMemories = None\<rparr>,
               run_calls st1)
         else
           (let interpretation = orElse (map_of (results (run_context st1)) ''interpretation'') [];
                (workflowPlan, h') =
                   determineWorkflowFromInterpretation E interpretation userPrompt' (run_calls st1)
            in case workflowPlan of
                 Inl e \<Rightarrow> (Inl e, h')
               | Inr (plan, planned) \<Rightarrow>
                   (let st2 = pushLog (targetMark @ '' Workflow determined: '' @ JSON_stringify_indent E plan)
                                (st1\<lparr>run_calls := h'\<rparr>)
                    in case planned of
                         None \<Rightarrow>
                           (Inl (TypeError ''Cannot read properties of undefined (reading length)''),
                            run_calls st2)
                       | Some plannedSteps \<Rightarrow>
                           (let st3 = executeWorkflow E userPrompt' plannedSteps st2;
                                (finalResult', st4) =
                                   executeSingleAgent E ''supervisor''
                                     (supervisorInstructions userPrompt' interpretation st3) userPrompt' st3
                            in (Inr \<lparr>success = finalResult',
                                     finalResult =
                                       orElse (map_of (results (run_context st4)) ''final_summary'')
                                         (orElse (map_of (results (run_context st4)) ''generated_code'')
                                            ''Workflow completed''),
                                     resultContext = run_context st4,
                                     executionLog = run_log st4,
                                     agentMemories = Some (run_memories st4)\<rparr>,
                                run_calls st4)))))"

section \<open>The relevance score as the specification words it\<close>

text \<open>
  The tokens of a prompt: its maximal runs of characters that are not white space. The
  specification counts the tokens longer than three characters that occur, without regard
  to case, in the serialized memory content.
\<close>

function tokens :: "string \<Rightarrow> string list" where
  "tokens s =
     (case dropWhile isSpace s of
        [] \<Rightarrow> []
      | c # cs \<Rightarrow> (c # takeWhile (\<lambda>x. \<not> isSpace x) cs) # tokens (dropWhile (\<lambda>x. \<not> isSpace x) cs))"
  by pat_completeness auto
termination
proof (relation "measure length")
  fix s c cs assume "dropWhile isSpace s = c # cs"
  then have "length (c # cs) \<le> length s" by (metis length_dropWhile_le)
  moreover have "length (dropWhile (\<lambda>x. \<not> isSpace x) cs) \<le> length cs" by (rule length_dropWhile_le)
  ultimately show "(dropWhile (\<lambda>x. \<not> isSpace x) cs, s) \<in> measure length" by simp
qed simp

declare tokens.simps [simp del]


section \<open>Concrete environments\<close>

text \<open>
  An environment around a given service: the clock stands still, nothing parses as JSON
  and every value prints as \<^verbatim>\<open>null\<close>.
\<close>

definition stubEnv :: "(GrokApiRequest list \<Rightarrow> GrokApiRequest \<Rightarrow> string + string) \<Rightarrow> env" where
  "stubEnv service =
     \<lparr>post = service,
      now = (\<lambda>h. 0),
      JSON_parse = (\<lambda>s. Inl ''Unexpected token''),
      JSON_stringify = (\<lambda>v. ''null''),
      JSON_stringify_indent = (\<lambda>v. ''null''),
      planOf = (\<lambda>v. None)\<rparr>"

text \<open>A service that answers every request with the same text.\<close>

definition constantService :: "string \<Rightarrow> GrokApiRequest list \<Rightarrow> GrokApiRequest \<Rightarrow> string + string" where
  "constantService text h request = Inr text"

text \<open>A service that fails every request, and one that fails the request number \<open>n\<close> only.\<close>

definition failingService :: "string \<Rightarrow> GrokApiRequest list \<Rightarrow> GrokApiRequest \<Rightarrow> string + string" where
  "failingService m h request = Inl m"

definition failAt :: "nat \<Rightarrow> string \<Rightarrow> GrokApiRequest list \<Rightarrow> GrokApiRequest \<Rightarrow> string + string" where
  "failAt n m h request = (if length h = n then Inl m else Inr ''ok'')"

text \<open>A memory content that serializes to one fixed text.\<close>

definition relevanceEnv :: env where
  \<open>relevanceEnv =
     (stubEnv (constantService ''ok''))\<lparr>JSON_stringify := (\<lambda>v. ''{"learnings":["Refactor parser module"]}'')\<rparr>\<close>



section \<open>Predicates on runs\<close>

text \<open>No stored result is the empty text.\<close>

definition valuesNonempty :: "AgentContext \<Rightarrow> bool" where
  "valuesNonempty ctx = list_all (\<lambda>(k, v). v \<noteq> []) (results ctx)"

text \<open>Every key of the results is a role name followed by \<^verbatim>\<open>_result\<close>.\<close>

definition roleKeys :: "AgentContext \<Rightarrow> bool" where
  "roleKeys ctx = list_all (\<lambda>(k, v). suffix ''_result'' k) (results ctx)"

text \<open>
  The requests of a run that execute an agent: they alone ask for 2000 tokens. The requests
  that generate a memory ask for 1000, the planning request for 1500.
\<close>

definition agentRequests :: "GrokApiRequest list \<Rightarrow> GrokApiRequest list" where
  "agentRequests calls = filter (\<lambda>q. max_tokens q = 2000) calls"

text \<open>
  The state in which the supervisor starts, for a run whose interpretation has passed and
  whose planning has returned the plan \<open>plan\<close> with the steps \<open>planned\<close>.
\<close>

definition beforeSupervision :: "env \<Rightarrow> string \<Rightarrow> GrokApiRequest list \<Rightarrow> json \<Rightarrow> PlannedStep list \<Rightarrow> run" where
  "beforeSupervision E up h plan planned =
     (let st1 = snd (executeSingleAgent E ''interpreter'' (interpreterInstructions up) up
                      \<lparr>run_context = initialContext up 10, run_log = [], run_memories = [], run_calls = h\<rparr>)
      in executeWorkflow E up planned
           (pushLog (targetMark @ '' Workflow determined: '' @ JSON_stringify_indent E plan)
              (st1\<lparr>run_calls := run_calls st1 @ [planningRequest [] up]\<rparr>)))"

text \<open>The result of the analysis pipeline when the service answers with one fixed line.\<close>

definition analysisOnlyResult :: PipelineResult where
  "analysisOnlyResult =
     \<lparr>success = True,
      finalResult = ''Pipeline completed'',
      resultContext =
        \<lparr>userPrompt = ''review this module for complexity'',
         results = [(''analysis'', ''analysis complete: no issues found'')],
         errors = [], stepCount = 1, maxSteps = 1\<rparr>,
      executionLog = [''Executing step 1/1: analyzer'', ''Step analyzer completed successfully''],
      agentMemories = None\<rparr>"

text \<open>
  A run whose interpreter request fails, and a run in which the planner's answer does not
  parse and the request of the first planned step (request number 3) fails, with their
  results.
\<close>

definition failedInterpretationResult :: PipelineResult where
  "failedInterpretationResult =
     \<lparr>success = False,
      finalResult = ''Interpretation failed - cannot determine next steps'',
      resultContext =
        \<lparr>userPrompt = ''fix crash on startup'',
         results = [],
         errors = [''interpreter failed: Failed to communicate with Grok API: timeout''],
         stepCount = 0, maxSteps = 10\<rparr>,
      executionLog =
        [''Executing interpreter agent...'',
         crossMark @ '' interpreter failed: Failed to communicate with Grok API: timeout'',
         crossMark @ '' Pipeline failed at interpretation stage''],
      agentMemories = None\<rparr>"

definition degradedEnv :: env where
  "degradedEnv = stubEnv (failAt 3 ''timeout'')"

definition degradedRunResult :: PipelineResult where
  "degradedRunResult =
     \<lparr>success = True,
      finalResult = ''Workflow completed'',
      resultContext =
        \<lparr>userPrompt = ''fix crash on startup'',
         results = [(''interpreter_result'', ''ok''), (''supervisor_result'', ''ok'')],
         errors = [''analysis failed: Failed to communicate with Grok API: timeout''],
         stepCount = 2, maxSteps = 10\<rparr>,
      executionLog =
        [''Executing interpreter agent...'',
         ''Memory generation failed for interpreter: SyntaxError: Unexpected token'',
         ''interpreter completed successfully'',
         targetMark @ '' Workflow determined: null'',
         ''Executing analysis agent...'',
         crossMark @ '' analysis failed: Failed to communicate with Grok API: timeout'',
         crossMark @ '' Required step '' @ [CHR 0x27] @ ''analysis'' @ [CHR 0x27] @ '' failed - stopping workflow'',
         ''Executing supervisor agent...'',
         ''Memory generation failed for supervisor: SyntaxError: Unexpected token'',
         ''supervisor completed successfully''],
      agentMemories = Some []\<rparr>"

text \<open>A service whose every answer names the agent to run next.\<close>

definition directiveEnv :: env where
  "directiveEnv = stubEnv (constantService ''NEXT AGENT: CODER. Implement the parser in src/parser.ts'')"

text \<open>
  A service whose every answer is the JSON text of a plan of nine steps, with the value
  that text parses to and the steps read from it.
\<close>

definition ninePlanText :: string where
  \<open>ninePlanText =
     ''{"steps":[{"agent":"coder","instructions":"next module"},{"agent":"coder","instructions"'' @
     '':"next module"},{"agent":"coder","instructions":"next module"},{"agent":"coder","instruc'' @
     ''tions":"next module"},{"agent":"coder","instructions":"next module"},{"agent":"coder","i'' @
     ''nstructions":"next module"},{"agent":"coder","instructions":"next module"},{"agent":"cod'' @
     ''er","instructions":"next module"},{"agent":"coder","instructions":"next module"}]}''\<close>

definition ninePlanJson :: json where
  "ninePlanJson =
     JObj [(''steps'',
            JArr (replicate 9 (JObj [(''agent'', JStr ''coder''), (''instructions'', JStr ''next module'')])))]"

definition nineSteps :: "PlannedStep list" where
  "nineSteps =
     replicate 9 \<lparr>planned_agent = ''coder'', instructions = ''next module'', required = False,
                  iterativeFeedback = False, feedbackOutput = None\<rparr>"

definition ninePlanEnv :: env where
  "ninePlanEnv =
     \<lparr>post = constantService ninePlanText,
      now = (\<lambda>h. 0),
      JSON_parse = (\<lambda>s. if s = ninePlanText then Inr ninePlanJson else Inl ''Unexpected token''),
      JSON_stringify = (\<lambda>v. ''null''),
      JSON_stringify_indent = (\<lambda>v. ''null''),
      planOf = (\<lambda>v. if v = ninePlanJson then Some nineSteps else None)\<rparr>"

text \<open>
  A plan of one required step that asks for feedback from the interpreter's output, as JSON
  text, as the value it parses to and as the step read from it; environments whose parser
  knows that text; a service that answers every request but the one numbered \<open>n\<close>; and a
  state in which the interpreter's output reports an error.
\<close>

definition feedbackPlanText :: string where
  \<open>feedbackPlanText =
     ''{"steps":[{"agent":"coder","instructions":"apply the fix needed","required":true,'' @
     ''"iterativeFeedback":true,"feedbackOutput":"interpreter_result"}]}''\<close>

definition feedbackStep :: PlannedStep where
  "feedbackStep =
     \<lparr>planned_agent = ''coder'', instructions = ''apply the fix needed'', required = True,
      iterativeFeedback = True, feedbackOutput = Some ''interpreter_result''\<rparr>"

definition feedbackPlanJson :: json where
  "feedbackPlanJson =
     JObj [(''steps'',
            JArr [JObj [(''agent'', JStr ''coder''),
                        (''instructions'', JStr ''apply the fix needed''),
                        (''required'', JBool True),
                        (''iterativeFeedback'', JBool True),
                        (''feedbackOutput'', JStr ''interpreter_result'')]])]"

definition feedbackEnv :: "(GrokApiRequest list \<Rightarrow> GrokApiRequest \<Rightarrow> string + string) \<Rightarrow> env" where
  "feedbackEnv service =
     \<lparr>post = service,
      now = (\<lambda>h. 0),
      JSON_parse = (\<lambda>s. if s = feedbackPlanText then Inr feedbackPlanJson else Inl ''Unexpected token''),
      JSON_stringify = (\<lambda>v. ''null''),
      JSON_stringify_indent = (\<lambda>v. ''null''),
      planOf = (\<lambda>v. if v = feedbackPlanJson then Some [feedbackStep] else None)\<rparr>"

definition answerExcept :: "nat \<Rightarrow> string \<Rightarrow> string \<Rightarrow> GrokApiRequest list \<Rightarrow> GrokApiRequest \<Rightarrow> string + string" where
  "answerExcept n m answer h request = (if length h = n then Inl m else Inr answer)"

definition brokenCoderEnv :: env where
  "brokenCoderEnv = feedbackEnv (answerExcept 3 ''timeout'' feedbackPlanText)"

definition reviewedState :: run where
  "reviewedState =
     \<lparr>run_context =
        \<lparr>userPrompt = ''repair the build'',
         results = [(''interpreter_result'', ''Please FIX the Error in main.ts'')],
         errors = [], stepCount = 1, maxSteps = 10\<rparr>,
      run_log = [], run_memories = [], run_calls = []\<rparr>"


section \<open>Properties of the relevance score\<close>

lemma isSpace_toLowerChar [simp]: "isSpace (toLowerChar c) = isSpace c"
  by (auto simp: isSpace_def toLowerChar_def split: option.splits if_splits)

lemma splitWs_not_Nil [simp]: "splitWs s \<noteq> []"
  by (cases s) (auto split: list.splits)

lemma tokens_Nil [simp]: "tokens [] = []"
  by (simp add: tokens.simps)

lemma tokens_space [simp]: "isSpace c \<Longrightarrow> tokens (c # cs) = tokens cs"
  by (simp add: tokens.simps [of "c # cs"] tokens.simps [of cs])












text \<open>The score of that prompt is 2, and 3 with the further token.\<close>

lemma calculateMemoryRelevance_example:
  "calculateMemoryRelevance relevanceEnv JNull ''Please REFACTOR the parser'' = 2
   \<and> calculateMemoryRelevance relevanceEnv JNull ''Please REFACTOR the parser module'' = 3"
  by (simp add: calculateMemoryRelevance_def relevanceEnv_def stubEnv_def toLowerCase_def
        toLowerChar_def isSpace_def)

section \<open>Properties of the memory pruner\<close>

lemma chat_calls [simp]: "snd (chat E h request) = h @ [request]"
  by (simp add: chat_def split: sum.splits)

lemma chat_nonempty: "fst (chat E h request) = Inr text \<Longrightarrow> text \<noteq> []"
  by (auto simp: chat_def split: sum.splits if_splits)




text \<open>
  An answer that is valid JSON of another shape does not take the fallback: the members
  it lacks are replaced one by one.
\<close>

lemma readAnalysis_other_shape:
  "JSON_parse E (extractPayload text) = Inr (JNum 42) \<Longrightarrow>
   readAnalysis E text = Inr \<lparr>relevantMemories = JArr [], prunedMemories = JArr [],
      contextSummary = JStr ''Memory analysis completed'', cleanupRecommendations = JArr []\<rparr>"
  by (simp add: readAnalysis_def)

text \<open>The request of the pruner is not guarded: its failure is thrown.\<close>

lemma pruneAgentMemories_throws:
  "post E h (pruningRequest E originalUserPrompt currentPrompt (flattenMemories memories)) = Inl m \<Longrightarrow>
   fst (pruneAgentMemories E originalUserPrompt memories currentPrompt h)
     = Inl (Error (''Failed to communicate with Grok API: '' @ m))"
  by (simp add: pruneAgentMemories_def chat_def Let_def)

section \<open>Properties of the static pipelines\<close>

text \<open>
  C8. \<^verbatim>\<open>executePipeline\<close> throws if and only if no pipeline is registered under the
  identifier or the registered one is disabled. It then throws the error that names the
  identifier, and it has made no request: nothing has run.
\<close>

theorem executePipeline_fails_iff:
  "((\<exists>e. fst (executePipeline E pipelines pipelineId prompt h) = Inl e)
      \<longleftrightarrow> (map_of pipelines pipelineId = None
           \<or> (\<exists>p. map_of pipelines pipelineId = Some p \<and> \<not> enabled p)))
   \<and> (\<forall>e. fst (executePipeline E pipelines pipelineId prompt h) = Inl e \<longrightarrow>
          e = Error (''Pipeline '' @ pipelineId @ '' not found or disabled'')
          \<and> snd (executePipeline E pipelines pipelineId prompt h) = h)"
  by (auto simp: executePipeline_def Let_def split: option.splits)

theorem executePipeline_fails_iff_witness:
  "(\<exists>e. fst (executePipeline (stubEnv (constantService ''ok'')) initializePipelines ''deploy''
             ''ship it'' []) = Inl e)
   \<and> map_of initializePipelines ''deploy'' = None
   \<and> fst (executePipeline (stubEnv (constantService ''ok'')) initializePipelines ''deploy'' ''ship it'' [])
       = Inl (Error ''Pipeline deploy not found or disabled'')
   \<and> snd (executePipeline (stubEnv (constantService ''ok'')) initializePipelines ''deploy'' ''ship it'' [])
       = []"
proof -
  have n: "map_of initializePipelines ''deploy'' = None"
    by (simp add: initializePipelines_def)
  show ?thesis
    using executePipeline_fails_iff
            [of "stubEnv (constantService ''ok'')" initializePipelines "''deploy''" "''ship it''" "[]"] n
    by auto
qed

lemma show_nat_small [simp]:
  "show_nat 0 = ''0''" "show_nat (Suc 0) = ''1''" "show_nat 1 = ''1''" "show_nat 2 = ''2''"
  "show_nat (Suc (Suc 0)) = ''2''"
  "show_nat 3 = ''3''" "show_nat 4 = ''4''" "show_nat 5 = ''5''" "show_nat 6 = ''6''"
  "show_nat 7 = ''7''"
  by (simp_all add: show_nat_def digits.simps)

lemma orElse_absent [simp]: "orElse None d = d"
  by (simp add: orElse_def)

lemma orElse_case:
  "(\<And>v. a = Some v \<Longrightarrow> v \<noteq> []) \<Longrightarrow> orElse a d = (case a of Some v \<Rightarrow> v | None \<Rightarrow> d)"
  by (auto simp: orElse_def split: option.splits)

lemma valuesNonempty_map_of:
  "valuesNonempty ctx \<Longrightarrow> map_of (results ctx) k = Some v \<Longrightarrow> v \<noteq> []"
  by (auto simp: valuesNonempty_def list_all_iff dest!: map_of_SomeD)

lemma list_all_update:
  "list_all P al \<Longrightarrow> P (k, v) \<Longrightarrow> list_all P (AList.update k v al)"
  by (induction al) auto

text \<open>The client never returns the empty text, so no stored result is empty.\<close>

lemma executeStep_valuesNonempty:
  "valuesNonempty (run_context st) \<Longrightarrow> valuesNonempty (run_context (snd (executeStep E n i step st)))"
proof -
  assume inv: "valuesNonempty (run_context st)"
  obtain response h' where c: "chat E (run_calls st)
      (agentRequest (systemPrompt (agent step))
         (inputMap step ((run_context st)\<lparr>stepCount := i + 1\<rparr>))) = (response, h')"
    by fastforce
  show ?thesis
  proof (cases response)
    case (Inl e)
    with c inv show ?thesis
      by (simp add: executeStep_def Let_def pushLog_def pushError_def valuesNonempty_def)
  next
    case (Inr reply)
    with c have "reply \<noteq> []" using chat_nonempty [of E _ _ reply] by (metis fst_conv)
    with c Inr inv show ?thesis
      by (auto simp: executeStep_def Let_def pushLog_def valuesNonempty_def list_all_update
               split: option.splits)
  qed
qed

lemma executeSteps_valuesNonempty:
  "valuesNonempty (run_context st) \<Longrightarrow> valuesNonempty (run_context (executeSteps E n i steps' st))"
proof (induction steps' arbitrary: i st)
  case Nil
  then show ?case by simp
next
  case (Cons step rest)
  have "valuesNonempty (run_context (snd (executeStep E n i step st)))"
    using Cons.prems by (rule executeStep_valuesNonempty)
  then show ?case
    using Cons.IH by (auto simp: Let_def split: prod.splits)
qed

lemma executePipeline_analysis_only:
  "fst (executePipeline (stubEnv (constantService ''analysis complete: no issues found''))
          initializePipelines ''analysis-only'' ''review this module for complexity'' [])
   = Inr analysisOnlyResult"
  by (simp add: executePipeline_def initializePipelines_def createAnalysisSteps_def executeStep_def
        chat_def stubEnv_def constantService_def pushLog_def initialContext_def
        orElse_def Let_def analysisOnlyResult_def)

text \<open>
  C7. For every run of \<^verbatim>\<open>executePipeline\<close> that completes, \<^verbatim>\<open>success\<close> holds exactly when
  the list of errors is empty, and the final result is the result stored under
  \<^verbatim>\<open>final_summary\<close> if there is one, else the one under \<^verbatim>\<open>generated_code\<close> if there is one,
  else the text \<^verbatim>\<open>Pipeline completed\<close>. The pipeline \<^verbatim>\<open>analysis-only\<close>, run against a
  service that always answers \<^verbatim>\<open>analysis complete: no issues found\<close>, succeeds with that
  answer as the only result, under the key \<^verbatim>\<open>analysis\<close>, and with the placeholder as final
  result.
\<close>

theorem executePipeline_completion:
  "(fst (executePipeline E pipelines pipelineId prompt h) = Inr r \<longrightarrow>
      (success r \<longleftrightarrow> errors (resultContext r) = [])
      \<and> finalResult r =
          (case map_of (results (resultContext r)) ''final_summary'' of
             Some v \<Rightarrow> v
           | None \<Rightarrow>
               (case map_of (results (resultContext r)) ''generated_code'' of
                  Some v \<Rightarrow> v
                | None \<Rightarrow> ''Pipeline completed'')))
   \<and> (case fst (executePipeline (stubEnv (constantService ''analysis complete: no issues found''))
                  initializePipelines ''analysis-only'' ''review this module for complexity'' []) of
         Inl e \<Rightarrow> False
       | Inr r \<Rightarrow>
           success r
           \<and> finalResult r = ''Pipeline completed''
           \<and> results (resultContext r) = [(''analysis'', ''analysis complete: no issues found'')])"
proof (intro conjI impI)
  assume run: "fst (executePipeline E pipelines pipelineId prompt h) = Inr r"
  then obtain p where p: "map_of pipelines pipelineId = Some p" "enabled p"
    by (auto simp: executePipeline_def split: option.splits if_splits)
  define st where "st = executeSteps E (length (steps p)) 0 (steps p)
                        \<lparr>run_context = initialContext prompt (length (steps p)),
                         run_log = [], run_memories = [], run_calls = h\<rparr>"
  have inv: "valuesNonempty (run_context st)"
    unfolding st_def by (rule executeSteps_valuesNonempty) (simp add: valuesNonempty_def initialContext_def)
  have r: "r = \<lparr>success = (length (errors (run_context st)) = 0),
                finalResult = orElse (map_of (results (run_context st)) ''final_summary'')
                          (orElse (map_of (results (run_context st)) ''generated_code'')
                             ''Pipeline completed''),
                resultContext = run_context st, executionLog = run_log st, agentMemories = None\<rparr>"
    using run p by (simp add: executePipeline_def Let_def st_def)
  show "success r \<longleftrightarrow> errors (resultContext r) = []" by (simp add: r)
  show "finalResult r =
          (case map_of (results (resultContext r)) ''final_summary'' of
             Some v \<Rightarrow> v
           | None \<Rightarrow>
               (case map_of (results (resultContext r)) ''generated_code'' of
                  Some v \<Rightarrow> v
                | None \<Rightarrow> ''Pipeline completed''))"
  proof -
    have rc: "resultContext r = run_context st" by (simp add: r)
    have "finalResult r = orElse (map_of (results (run_context st)) ''final_summary'')
                          (orElse (map_of (results (run_context st)) ''generated_code'')
                             ''Pipeline completed'')" by (simp add: r)
    then show ?thesis
      unfolding rc using valuesNonempty_map_of [OF inv] by (simp add: orElse_case)
  qed
next
  show "case fst (executePipeline (stubEnv (constantService ''analysis complete: no issues found''))
                  initializePipelines ''analysis-only'' ''review this module for complexity'' []) of
         Inl e \<Rightarrow> False
       | Inr r \<Rightarrow>
           success r
           \<and> finalResult r = ''Pipeline completed''
           \<and> results (resultContext r) = [(''analysis'', ''analysis complete: no issues found'')]"
    by (simp add: executePipeline_analysis_only analysisOnlyResult_def)
qed

theorem executePipeline_completion_witness:
  "fst (executePipeline (stubEnv (constantService ''analysis complete: no issues found''))
          initializePipelines ''analysis-only'' ''review this module for complexity'' [])
     = Inr analysisOnlyResult
   \<and> success analysisOnlyResult
   \<and> errors (resultContext analysisOnlyResult) = []
   \<and> map_of (results (resultContext analysisOnlyResult)) ''final_summary'' = None
   \<and> map_of (results (resultContext analysisOnlyResult)) ''generated_code'' = None
   \<and> finalResult analysisOnlyResult = ''Pipeline completed''"
  using executePipeline_completion
          [of "stubEnv (constantService ''analysis complete: no issues found'')" initializePipelines
              "''analysis-only''" "''review this module for complexity''" "[]" analysisOnlyResult]
        executePipeline_analysis_only
  by (simp add: analysisOnlyResult_def)

section \<open>Requests and the execution of one agent\<close>

lemma singleAgentRequest_max_tokens [simp]: "max_tokens (singleAgentRequest r i) = 2000"
  by (simp add: singleAgentRequest_def agentRequest_def Let_def)

lemma memoryRequest_max_tokens [simp]: "max_tokens (memoryRequest E r out up ctx) = 1000"
  by (simp add: memoryRequest_def Let_def)

lemma planningRequest_max_tokens [simp]: "max_tokens (planningRequest i p) = 1500"
  by (simp add: planningRequest_def)

lemma chat_eq_iff [simp]: "(chat E h q = (x, y)) = (fst (chat E h q) = x \<and> y = h @ [q])"
  by (auto simp: chat_def split: sum.splits)

lemma fst_chat:
  "fst (chat E h q) =
     (case post E h q of
        Inl m \<Rightarrow> Inl (Error (''Failed to communicate with Grok API: '' @ m))
      | Inr c \<Rightarrow> Inr (if c = [] then ''No response from Grok'' else c))"
  by (simp add: chat_def split: sum.splits)

lemma generateAgentMemory_calls [simp]:
  "snd (generateAgentMemory E r out up ctx h) = h @ [memoryRequest E r out up ctx]"
  by (auto simp: generateAgentMemory_def Let_def split: prod.splits sum.splits)

lemma generateAgentMemory_eq_iff [simp]:
  "(generateAgentMemory E r out up ctx h = (x, y))
     = (fst (generateAgentMemory E r out up ctx h) = x \<and> y = h @ [memoryRequest E r out up ctx])"
  using generateAgentMemory_calls [of E r out up ctx h] by (cases "generateAgentMemory E r out up ctx h") auto

lemma agentRequests_append [simp]: "agentRequests (a @ b) = agentRequests a @ agentRequests b"
  by (simp add: agentRequests_def)

lemma agentRequests_memory: "list_all (\<lambda>q. max_tokens q = 1000) memory \<Longrightarrow> agentRequests memory = []"
  by (induction memory) (auto simp: agentRequests_def)

lemma agentRequests_Nil [simp]: "agentRequests [] = []"
  by (simp add: agentRequests_def)

lemma agentRequests_Cons [simp]:
  "agentRequests (q # qs) = (if max_tokens q = 2000 then q # agentRequests qs else agentRequests qs)"
  by (simp add: agentRequests_def)

lemma orElse_Some_Nil [simp]: "orElse (Some v) [] = v"
  by (simp add: orElse_def)

text \<open>
  The outcome of one agent execution is the outcome of its request.
\<close>

lemma executeSingleAgent_success:
  "fst (executeSingleAgent E r i up st) = (\<not> isl (post E (run_calls st) (singleAgentRequest r i)))"
  by (auto simp: executeSingleAgent_def fst_chat Let_def pushLog_def split: prod.splits sum.splits)

lemma executeSingleAgent_failed:
  assumes "post E (run_calls st) (singleAgentRequest r i) = Inl m"
  shows "executeSingleAgent E r i up st =
           (False, st\<lparr>run_context := (run_context st)
                        \<lparr>errors := errors (run_context st) @ [r @ '' failed: Failed to communicate with Grok API: '' @ m]\<rparr>,
                      run_log := run_log st @
                        [''Executing '' @ r @ '' agent...'',
                         crossMark @ '' '' @ r @ '' failed: Failed to communicate with Grok API: '' @ m],
                      run_calls := run_calls st @ [singleAgentRequest r i]\<rparr>)"
  using assms
  by (simp add: executeSingleAgent_def fst_chat Let_def pushLog_def pushError_def split: prod.splits)

lemma executeSingleAgent_calls:
  "\<exists>memory. run_calls (snd (executeSingleAgent E r i up st)) = run_calls st @ singleAgentRequest r i # memory
     \<and> list_all (\<lambda>q. max_tokens q = 1000) memory"
  by (auto simp: executeSingleAgent_def Let_def pushLog_def pushError_def
           split: prod.splits sum.splits)

lemma executeSingleAgent_context_ok:
  assumes "post E (run_calls st) (singleAgentRequest r i) = Inr c"
  shows "run_context (snd (executeSingleAgent E r i up st)) =
           (run_context st)\<lparr>results := AList.update (r @ ''_result'')
                                (if c = [] then ''No response from Grok'' else c) (results (run_context st)),
                             stepCount := stepCount (run_context st) + 1\<rparr>"
  using assms
  by (auto simp: executeSingleAgent_def fst_chat Let_def pushLog_def split: prod.splits sum.splits)

lemma executeSingleAgent_calls_length:
  "post E (run_calls st) (singleAgentRequest r i) = Inr c \<Longrightarrow>
   length (run_calls (snd (executeSingleAgent E r i up st))) = length (run_calls st) + 2"
  by (simp add: executeSingleAgent_def fst_chat Let_def case_prod_beta pushLog_def split: sum.splits)

lemma executeSingleAgent_counts:
  "\<not> isl (post E (run_calls st) (singleAgentRequest r i)) \<Longrightarrow>
   stepCount (run_context (snd (executeSingleAgent E r i up st))) = stepCount (run_context st) + 1
   \<and> maxSteps (run_context (snd (executeSingleAgent E r i up st))) = maxSteps (run_context st)"
  by (cases "post E (run_calls st) (singleAgentRequest r i)")
     (simp_all add: executeSingleAgent_context_ok)

lemma executeSingleAgent_calls_prefix:
  "prefix (run_calls st) (run_calls (snd (executeSingleAgent E r i up st)))"
  using executeSingleAgent_calls [of E r i up st] by auto

text \<open>
  One agent execution makes one agent request.
\<close>

lemma executeSingleAgent_new_calls:
  "\<exists>memory. run_calls (snd (executeSingleAgent E r i up st)) = run_calls st @ singleAgentRequest r i # memory
      \<and> agentRequests memory = []"
  using executeSingleAgent_calls [of E r i up st] agentRequests_memory by blast

lemma executeSingleAgent_agentRequests:
  "agentRequests (run_calls (snd (executeSingleAgent E r i up st)))
     = agentRequests (run_calls st) @ [singleAgentRequest r i]"
proof -
  obtain memory where "run_calls (snd (executeSingleAgent E r i up st)) = run_calls st @ singleAgentRequest r i # memory"
      "agentRequests memory = []"
    using executeSingleAgent_new_calls by blast
  then show ?thesis by simp
qed

lemma executeSingleAgent_new_agentRequests:
  "agentRequests (drop (length (run_calls st)) (run_calls (snd (executeSingleAgent E r i up st))))
     = [singleAgentRequest r i]"
proof -
  obtain memory where m: "run_calls (snd (executeSingleAgent E r i up st)) = run_calls st @ singleAgentRequest r i # memory"
      "agentRequests memory = []"
    using executeSingleAgent_new_calls by blast
  then show ?thesis by simp
qed

text \<open>
  Every key written by an agent execution is the role followed by \<^verbatim>\<open>_result\<close>; the two
  keys the final result is read from are not of that form.
\<close>

lemma roleKeys_no_final_keys:
  assumes "roleKeys ctx"
  shows "map_of (results ctx) ''final_summary'' = None \<and> map_of (results ctx) ''generated_code'' = None"
proof -
  have "\<not> suffix ''_result'' ''final_summary''" "\<not> suffix ''_result'' ''generated_code''"
    by (simp_all add: suffix_to_prefix)
  with assms have "''final_summary'' \<notin> fst ` set (results ctx)" "''generated_code'' \<notin> fst ` set (results ctx)"
    by (auto simp: roleKeys_def list_all_iff)
  then show ?thesis by (simp add: map_of_eq_None_iff)
qed

lemma executeSingleAgent_roleKeys:
  "roleKeys (run_context st) \<Longrightarrow> roleKeys (run_context (snd (executeSingleAgent E r i up st)))"
proof (cases "post E (run_calls st) (singleAgentRequest r i)")
  case (Inl m)
  assume "roleKeys (run_context st)"
  then show ?thesis by (simp add: executeSingleAgent_failed [OF Inl] roleKeys_def)
next
  case (Inr c)
  assume "roleKeys (run_context st)"
  then show ?thesis
    by (simp add: executeSingleAgent_context_ok [OF Inr] roleKeys_def list_all_update suffix_def)
qed

section \<open>The loop over the planned steps\<close>

lemma iterateStep_roleKeys:
  "roleKeys (run_context st) \<Longrightarrow> roleKeys (run_context (iterateStep E up step st))"
  by (auto simp: iterateStep_def Let_def pushLog_def intro!: executeSingleAgent_roleKeys
           split: option.splits)

lemma executeWorkflow_roleKeys:
  "roleKeys (run_context st) \<Longrightarrow> roleKeys (run_context (executeWorkflow E up planned st))"
proof (induction planned arbitrary: st)
  case Nil
  then show ?case by simp
next
  case (Cons step rest)
  have a: "roleKeys (run_context (snd (executeSingleAgent E (planned_agent step) (instructions step) up st)))"
    using Cons.prems by (rule executeSingleAgent_roleKeys)
  then have "roleKeys (run_context (iterateStep E up step
                 (snd (executeSingleAgent E (planned_agent step) (instructions step) up st))))"
    by (rule iterateStep_roleKeys)
  with a Cons.IH show ?case
    by (auto simp: Let_def pushLog_def split: prod.splits)
qed

lemma iterateStep_calls_prefix:
  "prefix (run_calls st) (run_calls (iterateStep E up step st))"
proof -
  have "prefix (run_calls (pushLog l st)) (run_calls (snd (executeSingleAgent E r i up (pushLog l st))))" for l r i
    by (rule executeSingleAgent_calls_prefix)
  then show ?thesis
    by (auto simp: iterateStep_def Let_def pushLog_def split: option.splits)
qed

lemma executeWorkflow_calls_prefix:
  "prefix (run_calls st) (run_calls (executeWorkflow E up planned st))"
proof (induction planned arbitrary: st)
  case Nil
  show ?case by simp
next
  case (Cons step rest)
  let ?st1 = "snd (executeSingleAgent E (planned_agent step) (instructions step) up st)"
  have a: "prefix (run_calls st) (run_calls ?st1)" by (rule executeSingleAgent_calls_prefix)
  have b: "prefix (run_calls ?st1) (run_calls (iterateStep E up step ?st1))" by (rule iterateStep_calls_prefix)
  have c: "prefix (run_calls (iterateStep E up step ?st1))
             (run_calls (executeWorkflow E up rest (iterateStep E up step ?st1)))" by (rule Cons.IH)
  from a b c have "prefix (run_calls st) (run_calls (executeWorkflow E up rest (iterateStep E up step ?st1)))"
    by (meson prefix_order.trans)
  with a show ?case
    by (simp add: Let_def case_prod_beta pushLog_def)
qed

lemma iterateStep_no_feedback: "\<not> iterativeFeedback step \<Longrightarrow> iterateStep E up step st = st"
  by (simp add: iterateStep_def)

text \<open>
  When no request fails and no step asks for feedback, every planned step is counted.
\<close>

lemma executeWorkflow_counts:
  assumes "\<And>h q. \<not> isl (post E h q)"
  shows "list_all (\<lambda>s. \<not> iterativeFeedback s) planned \<Longrightarrow>
         stepCount (run_context (executeWorkflow E up planned st)) = stepCount (run_context st) + length planned
         \<and> maxSteps (run_context (executeWorkflow E up planned st)) = maxSteps (run_context st)"
proof (induction planned arbitrary: st)
  case Nil
  show ?case by simp
next
  case (Cons step rest)
  let ?r = "executeSingleAgent E (planned_agent step) (instructions step) up st"
  have ok: "fst ?r" by (simp add: executeSingleAgent_success assms)
  have c: "stepCount (run_context (snd ?r)) = stepCount (run_context st) + 1
           \<and> maxSteps (run_context (snd ?r)) = maxSteps (run_context st)"
    by (rule executeSingleAgent_counts) (rule assms)
  from Cons.prems have nf: "\<not> iterativeFeedback step" and rest: "list_all (\<lambda>s. \<not> iterativeFeedback s) rest"
    by simp_all
  have "executeWorkflow E up (step # rest) st = executeWorkflow E up rest (snd ?r)"
    using ok nf by (simp add: case_prod_beta iterateStep_no_feedback)
  with Cons.IH [OF rest, of "snd ?r"] c show ?case by simp
qed

text \<open>
  The loop handles its first step and then the rest, unless the step ends it.
\<close>

lemma executeWorkflow_Cons:
  "executeWorkflow E up (step # rest) st =
     (if \<not> fst (executeSingleAgent E (planned_agent step) (instructions step) up st) \<and> required step
      then executeWorkflow E up [step] st
      else executeWorkflow E up rest (executeWorkflow E up [step] st))"
  by (simp add: case_prod_beta)

section \<open>The phases of a run\<close>

lemma determineWorkflow_calls [simp]:
  "snd (determineWorkflowFromInterpretation E i p h) = h @ [planningRequest i p]"
  by (auto simp: determineWorkflowFromInterpretation_def Let_def split: prod.splits sum.splits)

lemma determineWorkflow_eq_iff [simp]:
  "(determineWorkflowFromInterpretation E i p h = (x, y))
     = (fst (determineWorkflowFromInterpretation E i p h) = x \<and> y = h @ [planningRequest i p])"
  using determineWorkflow_calls [of E i p h] by (cases "determineWorkflowFromInterpretation E i p h") auto

text \<open>
  The interpreter's output is stored under \<^verbatim>\<open>interpreter_result\<close>; the key
  \<^verbatim>\<open>interpretation\<close>, which the orchestration reads next, stays absent.
\<close>

lemma interpreter_results:
  "map_of (results (run_context (snd (executeSingleAgent E ''interpreter'' i up
      \<lparr>run_context = initialContext up n, run_log = [], run_memories = [], run_calls = h\<rparr>)))) ''interpretation'' = None"
  by (cases "post E h (singleAgentRequest ''interpreter'' i)")
     (simp_all add: executeSingleAgent_failed executeSingleAgent_context_ok initialContext_def)

text \<open>
  The run when the interpretation fails, and when it passes.
\<close>

lemma orchestration_failed:
  assumes "isl (post E h (singleAgentRequest ''interpreter'' (interpreterInstructions up)))"
  shows "executeIntelligentOrchestration E up h =
           (let st1 = snd (executeSingleAgent E ''interpreter'' (interpreterInstructions up) up
                      \<lparr>run_context = initialContext up 10, run_log = [], run_memories = [], run_calls = h\<rparr>)
            in (Inr \<lparr>success = False,
                     finalResult = ''Interpretation failed - cannot determine next steps'',
                     resultContext = run_context st1,
                     executionLog = run_log st1 @ [crossMark @ '' Pipeline failed at interpretation stage''],
                     agentMemories = None\<rparr>,
                h @ [singleAgentRequest ''interpreter'' (interpreterInstructions up)]))"
proof -
  from assms obtain m where "post E h (singleAgentRequest ''interpreter'' (interpreterInstructions up)) = Inl m"
    by (auto simp: isl_def)
  then show ?thesis
    by (simp add: executeIntelligentOrchestration_def executeSingleAgent_failed Let_def)
qed

lemma orchestration_unfold:
  fixes E up h
  defines "st1 \<equiv> snd (executeSingleAgent E ''interpreter'' (interpreterInstructions up) up
                       \<lparr>run_context = initialContext up 10, run_log = [], run_memories = [], run_calls = h\<rparr>)"
  assumes "\<not> isl (post E h (singleAgentRequest ''interpreter'' (interpreterInstructions up)))"
  shows "executeIntelligentOrchestration E up h =
      (case fst (determineWorkflowFromInterpretation E [] up (run_calls st1)) of
         Inl e \<Rightarrow> (Inl e, run_calls st1 @ [planningRequest [] up])
       | Inr pp \<Rightarrow>
           (case snd pp of
              None \<Rightarrow> (Inl (TypeError ''Cannot read properties of undefined (reading length)''),
                        run_calls st1 @ [planningRequest [] up])
            | Some planned \<Rightarrow>
               (let st3 = beforeSupervision E up h (fst pp) planned;
                    r4 = executeSingleAgent E ''supervisor'' (supervisorInstructions up [] st3) up st3
                in (Inr \<lparr>success = fst r4,
                         finalResult = orElse (map_of (results (run_context (snd r4))) ''final_summary'')
                                         (orElse (map_of (results (run_context (snd r4))) ''generated_code'')
                                            ''Workflow completed''),
                         resultContext = run_context (snd r4),
                         executionLog = run_log (snd r4),
                         agentMemories = Some (run_memories (snd r4))\<rparr>, run_calls (snd r4)))))"
proof -
  let ?st0 = "\<lparr>run_context = initialContext up 10, run_log = [], run_memories = [], run_calls = h\<rparr>"
  have ok: "fst (executeSingleAgent E ''interpreter'' (interpreterInstructions up) up ?st0)"
    using assms(2) by (simp add: executeSingleAgent_success)
  have interp: "orElse (map_of (results (run_context st1)) ''interpretation'') [] = []"
    unfolding st1_def by (simp add: interpreter_results orElse_def)
  show ?thesis
    using ok interp
    unfolding executeIntelligentOrchestration_def beforeSupervision_def st1_def
    by (simp add: Let_def case_prod_beta pushLog_def split: sum.splits option.splits)
qed

lemma orchestration_passed:
  fixes E up h
  defines "st1 \<equiv> snd (executeSingleAgent E ''interpreter'' (interpreterInstructions up) up
                       \<lparr>run_context = initialContext up 10, run_log = [], run_memories = [], run_calls = h\<rparr>)"
  assumes "\<not> isl (post E h (singleAgentRequest ''interpreter'' (interpreterInstructions up)))"
    and "fst (determineWorkflowFromInterpretation E [] up (run_calls st1)) = Inr (plan, Some planned)"
  shows "executeIntelligentOrchestration E up h =
           (let st3 = beforeSupervision E up h plan planned;
                r4 = executeSingleAgent E ''supervisor'' (supervisorInstructions up [] st3) up st3
            in (Inr \<lparr>success = fst r4,
                     finalResult = orElse (map_of (results (run_context (snd r4))) ''final_summary'')
                                     (orElse (map_of (results (run_context (snd r4))) ''generated_code'')
                                        ''Workflow completed''),
                     resultContext = run_context (snd r4),
                     executionLog = run_log (snd r4),
                     agentMemories = Some (run_memories (snd r4))\<rparr>, run_calls (snd r4)))"
  using assms(3) unfolding st1_def
  by (simp add: orchestration_unfold [OF assms(2)])

lemma beforeSupervision_roleKeys: "roleKeys (run_context (beforeSupervision E up h plan planned))"
  unfolding beforeSupervision_def Let_def
  by (rule executeWorkflow_roleKeys)
     (simp add: pushLog_def, rule executeSingleAgent_roleKeys, simp add: roleKeys_def initialContext_def)

lemma prefix_nth: "prefix xs ys \<Longrightarrow> i < length xs \<Longrightarrow> ys ! i = xs ! i"
  by (auto simp: prefix_def nth_append)

text \<open>
  In every run that passes the interpretation the planning request is the third request,
  and the interpretation it carries is the empty text.
\<close>

lemma planning_request_position:
  assumes "\<not> isl (post E h (singleAgentRequest ''interpreter'' (interpreterInstructions up)))"
  shows "snd (executeIntelligentOrchestration E up h) ! (length h + 2) = planningRequest [] up"
proof -
  let ?st0 = "\<lparr>run_context = initialContext up 10, run_log = [], run_memories = [], run_calls = h\<rparr>"
  let ?st1 = "snd (executeSingleAgent E ''interpreter'' (interpreterInstructions up) up ?st0)"
  from assms obtain c where c: "post E h (singleAgentRequest ''interpreter'' (interpreterInstructions up)) = Inr c"
    by (cases "post E h (singleAgentRequest ''interpreter'' (interpreterInstructions up))") auto
  have len: "length (run_calls ?st1) = length h + 2"
    using c by (simp add: executeSingleAgent_def fst_chat Let_def case_prod_beta pushLog_def split: sum.splits)
  let ?base = "run_calls ?st1 @ [planningRequest [] up]"
  have base: "?base ! (length h + 2) = planningRequest [] up"
    using len by (metis nth_append_length)
  show ?thesis
  proof (cases "fst (determineWorkflowFromInterpretation E [] up (run_calls ?st1))")
    case (Inl e)
    with assms base show ?thesis by (simp add: orchestration_unfold)
  next
    case (Inr pp)
    show ?thesis
    proof (cases "snd pp")
      case None
      with Inr assms base show ?thesis by (simp add: orchestration_unfold)
    next
      case (Some planned)
      let ?st3 = "beforeSupervision E up h (fst pp) planned"
      let ?st4 = "snd (executeSingleAgent E ''supervisor'' (supervisorInstructions up [] ?st3) up ?st3)"
      have "prefix ?base (run_calls ?st3)"
        unfolding beforeSupervision_def Let_def
        using executeWorkflow_calls_prefix
                [of "pushLog (targetMark @ '' Workflow determined: '' @ JSON_stringify_indent E (fst pp))
                      (?st1\<lparr>run_calls := run_calls ?st1 @ [planningRequest [] up]\<rparr>)" E up planned]
        by (simp add: pushLog_def)
      moreover have "prefix (run_calls ?st3) (run_calls ?st4)" by (rule executeSingleAgent_calls_prefix)
      ultimately have "prefix ?base (run_calls ?st4)" by (meson prefix_order.trans)
      then have "run_calls ?st4 ! (length h + 2) = ?base ! (length h + 2)"
        by (rule prefix_nth) (simp add: len)
      with Some Inr assms base show ?thesis
        by (simp add: orchestration_unfold Let_def)
    qed
  qed
qed

section \<open>Concrete runs\<close>

lemma stubEnv_sel [simp]:
  "post (stubEnv service) = service"
  "now (stubEnv service) h = 0"
  "JSON_parse (stubEnv service) s = Inl ''Unexpected token''"
  "JSON_stringify (stubEnv service) v = ''null''"
  "JSON_stringify_indent (stubEnv service) v = ''null''"
  "planOf (stubEnv service) v = None"
  by (simp_all add: stubEnv_def)

lemma executeSingleAgent_failAt_ok:
  assumes "length (run_calls st) \<noteq> n" "Suc (length (run_calls st)) \<noteq> n"
  shows "executeSingleAgent (stubEnv (failAt n m)) r i up st =
           (True, st\<lparr>run_context := (run_context st)
                        \<lparr>results := AList.update (r @ ''_result'') ''ok'' (results (run_context st)),
                         stepCount := stepCount (run_context st) + 1\<rparr>,
                      run_log := run_log st @
                        [''Executing '' @ r @ '' agent...'',
                         ''Memory generation failed for '' @ r @ '': SyntaxError: Unexpected token'',
                         r @ '' completed successfully''],
                      run_calls := run_calls st @
                        [singleAgentRequest r i,
                         memoryRequest (stubEnv (failAt n m)) r
                           (JObj [(''instructions'', JStr i), (''response'', JStr ''ok'')]) up
                           ((run_context st)
                              \<lparr>results := AList.update (r @ ''_result'') ''ok'' (results (run_context st)),
                               stepCount := stepCount (run_context st) + 1\<rparr>)]\<rparr>)"
  using assms
  by (simp add: executeSingleAgent_def generateAgentMemory_def fst_chat Let_def pushLog_def
        stubEnv_def failAt_def case_prod_beta)

lemma executeSingleAgent_failAt_failed:
  assumes "length (run_calls st) = n"
  shows "executeSingleAgent (stubEnv (failAt n m)) r i up st =
           (False, st\<lparr>run_context := (run_context st)
                        \<lparr>errors := errors (run_context st) @ [r @ '' failed: Failed to communicate with Grok API: '' @ m]\<rparr>,
                      run_log := run_log st @
                        [''Executing '' @ r @ '' agent...'',
                         crossMark @ '' '' @ r @ '' failed: Failed to communicate with Grok API: '' @ m],
                      run_calls := run_calls st @ [singleAgentRequest r i]\<rparr>)"
  using assms by (simp add: executeSingleAgent_failed stubEnv_def failAt_def)

lemma determineWorkflow_stub:
  "length h \<noteq> n \<Longrightarrow>
   fst (determineWorkflowFromInterpretation (stubEnv (failAt n m)) i p h)
     = Inr (fallbackPlan i, Some (fallbackSteps i))"
  by (simp add: determineWorkflowFromInterpretation_def fst_chat stubEnv_def failAt_def Let_def case_prod_beta)

text \<open>
  The interpreter's request fails: the run returns at once.
\<close>

lemma orchestration_interpretation_failed_example:
  "fst (executeIntelligentOrchestration (stubEnv (failingService ''timeout'')) ''fix crash on startup'' [])
     = Inr failedInterpretationResult"
  by (simp add: orchestration_failed executeSingleAgent_failed stubEnv_def failingService_def
        failedInterpretationResult_def initialContext_def Let_def)

text \<open>
  The planner's answer does not parse, so the fallback plan runs; the request of its first
  step fails, which stops the plan; the supervisor still runs, and the run succeeds.
\<close>

lemma degraded_interpreter:
  "\<not> isl (post degradedEnv [] (singleAgentRequest ''interpreter'' (interpreterInstructions ''fix crash on startup'')))"
  by (simp add: degradedEnv_def failAt_def)

lemma degraded_beforeSupervision:
  "beforeSupervision degradedEnv ''fix crash on startup'' [] (fallbackPlan []) (fallbackSteps []) =
     \<lparr>run_context =
        \<lparr>userPrompt = ''fix crash on startup'',
         results = [(''interpreter_result'', ''ok'')],
         errors = [''analysis failed: Failed to communicate with Grok API: timeout''],
         stepCount = 1, maxSteps = 10\<rparr>,
      run_log =
        [''Executing interpreter agent...'',
         ''Memory generation failed for interpreter: SyntaxError: Unexpected token'',
         ''interpreter completed successfully'',
         targetMark @ '' Workflow determined: null'',
         ''Executing analysis agent...'',
         crossMark @ '' analysis failed: Failed to communicate with Grok API: timeout'',
         crossMark @ '' Required step '' @ [CHR 0x27] @ ''analysis'' @ [CHR 0x27] @ '' failed - stopping workflow''],
      run_memories = [],
      run_calls =
        [singleAgentRequest ''interpreter'' (interpreterInstructions ''fix crash on startup''),
         memoryRequest degradedEnv ''interpreter''
           (JObj [(''instructions'', JStr (interpreterInstructions ''fix crash on startup'')),
                  (''response'', JStr ''ok'')])
           ''fix crash on startup''
           \<lparr>userPrompt = ''fix crash on startup'', results = [(''interpreter_result'', ''ok'')],
            errors = [], stepCount = 1, maxSteps = 10\<rparr>,
         planningRequest [] ''fix crash on startup'',
         singleAgentRequest ''analysis'' ''Analyze codebase for: '']\<rparr>"
  unfolding beforeSupervision_def degradedEnv_def
  by (simp add: Let_def executeSingleAgent_failAt_ok executeSingleAgent_failAt_failed
        initialContext_def pushLog_def fallbackSteps_def)

lemma degraded_run:
  "fst (executeIntelligentOrchestration degradedEnv ''fix crash on startup'' []) = Inr degradedRunResult"
proof -
  have w: "fst (determineWorkflowFromInterpretation degradedEnv [] ''fix crash on startup''
             (run_calls (snd (executeSingleAgent degradedEnv ''interpreter''
                (interpreterInstructions ''fix crash on startup'') ''fix crash on startup''
                \<lparr>run_context = initialContext ''fix crash on startup'' 10, run_log = [], run_memories = [],
                   run_calls = []\<rparr>))))
           = Inr (fallbackPlan [], Some (fallbackSteps []))"
    unfolding degradedEnv_def
    by (simp add: executeSingleAgent_failAt_ok determineWorkflow_stub)
  show ?thesis
    unfolding orchestration_passed [OF degraded_interpreter w] Let_def degraded_beforeSupervision
    unfolding degradedEnv_def
    by (simp add: executeSingleAgent_failAt_ok orElse_def degradedRunResult_def)
qed

text \<open>
  An answer without a fence is its own payload.
\<close>

lemma splitOn_absent_char: "c \<notin> set s \<Longrightarrow> splitOn (c # sep) s = [s]"
proof (induction s)
  case Nil
  show ?case by (simp add: splitOn.simps [of _ "[]"])
next
  case (Cons x xs)
  then have "splitOn (c # sep) xs = [xs]" by simp
  with Cons.prems show ?case
    by (simp add: splitOn.simps [of _ "x # xs"])
qed

lemma extractPayload_no_fence: "CHR ''`'' \<notin> set s \<Longrightarrow> extractPayload s = s"
  by (simp add: extractPayload_def splitOn_absent_char)

lemma ninePlan_post [simp]: "post ninePlanEnv h q = Inr ninePlanText"
  by (simp add: ninePlanEnv_def constantService_def)

lemma ninePlanText_nonempty [simp]: "ninePlanText \<noteq> []"
  by (simp add: ninePlanText_def)

lemma ninePlan_workflow:
  "fst (determineWorkflowFromInterpretation ninePlanEnv i p h) = Inr (ninePlanJson, Some nineSteps)"
proof -
  have "CHR ''`'' \<notin> set ninePlanText" by (simp add: ninePlanText_def)
  then have "extractPayload ninePlanText = ninePlanText" by (rule extractPayload_no_fence)
  then show ?thesis
    by (simp add: determineWorkflowFromInterpretation_def fst_chat Let_def case_prod_beta)
       (simp add: ninePlanEnv_def)
qed

lemma brokenCoder_post:
  "post brokenCoderEnv h q = (if length h = 3 then Inl ''timeout'' else Inr feedbackPlanText)"
  by (simp add: brokenCoderEnv_def feedbackEnv_def answerExcept_def)

lemma feedbackPlanText_nonempty [simp]: "feedbackPlanText \<noteq> []"
  by (simp add: feedbackPlanText_def)

lemma brokenCoder_workflow:
  "length h \<noteq> 3 \<Longrightarrow>
   fst (determineWorkflowFromInterpretation brokenCoderEnv i p h) = Inr (feedbackPlanJson, Some [feedbackStep])"
proof -
  assume h: "length h \<noteq> 3"
  have "CHR ''`'' \<notin> set feedbackPlanText" by (simp add: feedbackPlanText_def)
  then have "extractPayload feedbackPlanText = feedbackPlanText" by (rule extractPayload_no_fence)
  with h show ?thesis
    by (simp add: determineWorkflowFromInterpretation_def fst_chat Let_def case_prod_beta brokenCoder_post)
       (simp add: brokenCoderEnv_def feedbackEnv_def)
qed

lemma needsIteration_feedbackPlanText: "needsIteration feedbackPlanText"
  by (simp add: needsIteration_def feedbackPlanText_def toLowerCase_def toLowerChar_def)

section \<open>The claims about the intelligent orchestration\<close>

text \<open>
  C1. The step count is claimed never to exceed \<open>maxSteps\<close>. The intelligent orchestration
  sets \<open>maxSteps\<close> to 10 and counts every successful agent execution, and nothing holds the
  count back: against a service that answers every request with a plan of nine steps, the
  run ends with a step count of 11.
\<close>

theorem orchestration_exceeds_maxSteps:
  "case fst (executeIntelligentOrchestration ninePlanEnv ''build the compiler'' []) of
     Inl e \<Rightarrow> False
   | Inr r \<Rightarrow> stepCount (resultContext r) = 11 \<and> maxSteps (resultContext r) = 10"
proof -
  let ?up = "''build the compiler''"
  let ?st0 = "\<lparr>run_context = initialContext ?up 10, run_log = [], run_memories = [], run_calls = []\<rparr>"
  let ?st1 = "snd (executeSingleAgent ninePlanEnv ''interpreter'' (interpreterInstructions ?up) ?up ?st0)"
  let ?st2 = "pushLog (targetMark @ '' Workflow determined: '' @ JSON_stringify_indent ninePlanEnv ninePlanJson)
                (?st1\<lparr>run_calls := run_calls ?st1 @ [planningRequest [] ?up]\<rparr>)"
  let ?st3 = "beforeSupervision ninePlanEnv ?up [] ninePlanJson nineSteps"
  let ?st4 = "snd (executeSingleAgent ninePlanEnv ''supervisor'' (supervisorInstructions ?up [] ?st3) ?up ?st3)"
  have ok: "\<And>h q. \<not> isl (post ninePlanEnv h q)" by simp
  have c1: "stepCount (run_context ?st1) = 1 \<and> maxSteps (run_context ?st1) = 10"
    using executeSingleAgent_counts [of ninePlanEnv ?st0 "''interpreter''" "interpreterInstructions ?up" ?up]
    by (simp add: initialContext_def)
  have nf: "list_all (\<lambda>s. \<not> iterativeFeedback s) nineSteps" by (simp add: nineSteps_def list_all_iff)
  have "?st3 = executeWorkflow ninePlanEnv ?up nineSteps ?st2"
    by (simp add: beforeSupervision_def Let_def)
  then have c3: "stepCount (run_context ?st3) = 10 \<and> maxSteps (run_context ?st3) = 10"
    using executeWorkflow_counts [OF ok nf, of ?up ?st2] c1 by (simp add: pushLog_def nineSteps_def)
  have c4: "stepCount (run_context ?st4) = 11 \<and> maxSteps (run_context ?st4) = 10"
    using executeSingleAgent_counts [of ninePlanEnv ?st3 "''supervisor''" "supervisorInstructions ?up [] ?st3" ?up] c3
    by simp
  have "\<not> isl (post ninePlanEnv [] (singleAgentRequest ''interpreter'' (interpreterInstructions ?up)))" by simp
  from orchestration_passed [OF this ninePlan_workflow] c4 show ?thesis
    by (simp add: Let_def)
qed

text \<open>
  C2. The planning request is claimed to carry the interpreter's raw output. The
  orchestration looks that output up under the key \<^verbatim>\<open>interpretation\<close>, and the interpreter
  has stored it under \<^verbatim>\<open>interpreter_result\<close>. For a service whose every answer names the
  next agent, the third request of the run is the planning request, its user message has an
  empty interpretation, and the interpreter's answer does not occur in it.
\<close>

theorem planning_request_omits_interpretation:
  \<open>post directiveEnv [] (singleAgentRequest ''interpreter'' (interpreterInstructions ''add a parser''))
     = Inr ''NEXT AGENT: CODER. Implement the parser in src/parser.ts''
   \<and> snd (executeIntelligentOrchestration directiveEnv ''add a parser'' []) ! 2
       = planningRequest [] ''add a parser''
   \<and> map msg_content (messages (planningRequest [] ''add a parser'')) ! 1
       = ''User Request: "add a parser"\<newline>Interpretation: ""\<newline>\<newline>Determine the optimal workflow sequence of agents.''
   \<and> \<not> includes_str (map msg_content (messages (planningRequest [] ''add a parser'')) ! 1)
          ''NEXT AGENT: CODER. Implement the parser in src/parser.ts''\<close>
proof -
  have p: "post directiveEnv [] (singleAgentRequest ''interpreter'' (interpreterInstructions ''add a parser''))
     = Inr ''NEXT AGENT: CODER. Implement the parser in src/parser.ts''"
    by (simp add: directiveEnv_def constantService_def)
  then have "\<not> isl (post directiveEnv [] (singleAgentRequest ''interpreter'' (interpreterInstructions ''add a parser'')))"
    by simp
  from planning_request_position [OF this]
  have q: "snd (executeIntelligentOrchestration directiveEnv ''add a parser'' []) ! 2
       = planningRequest [] ''add a parser''" by (simp add: numeral_2_eq_2)
  have m: \<open>map msg_content (messages (planningRequest [] ''add a parser'')) ! 1
       = ''User Request: "add a parser"\<newline>Interpretation: ""\<newline>\<newline>Determine the optimal workflow sequence of agents.''\<close>
    by (simp add: planningRequest_def)
  have n: "\<not> includes_str (map msg_content (messages (planningRequest [] ''add a parser'')) ! 1)
          ''NEXT AGENT: CODER. Implement the parser in src/parser.ts''"
    unfolding m by simp
  from p q m n show ?thesis by blast
qed



text \<open>
  C9, as stated, fails: a required step that declares iterative feedback, whose feedback
  key holds a text that contains \<^verbatim>\<open>fix needed\<close>, is not run again when its own request
  fails. The agent requests of the run are the interpreter's, one of the coder and the
  supervisor's.
\<close>

theorem planned_step_feedback_counterexample:
  "JSON_parse brokenCoderEnv feedbackPlanText = Inr feedbackPlanJson
   \<and> planOf brokenCoderEnv feedbackPlanJson = Some [feedbackStep]
   \<and> iterativeFeedback feedbackStep
   \<and> feedbackOutput feedbackStep = Some ''interpreter_result''
   \<and> map_of (results (run_context
         (beforeSupervision brokenCoderEnv ''repair the build'' [] feedbackPlanJson [feedbackStep])))
        ''interpreter_result'' = Some feedbackPlanText
   \<and> needsIteration feedbackPlanText
   \<and> agentRequests (snd (executeIntelligentOrchestration brokenCoderEnv ''repair the build'' []))
       = [singleAgentRequest ''interpreter'' (interpreterInstructions ''repair the build''),
          singleAgentRequest ''coder'' ''apply the fix needed'',
          singleAgentRequest ''supervisor''
            (supervisorInstructions ''repair the build'' []
               (beforeSupervision brokenCoderEnv ''repair the build'' [] feedbackPlanJson [feedbackStep]))]"
proof -
  let ?E = brokenCoderEnv
  let ?up = "''repair the build''"
  let ?irq = "singleAgentRequest ''interpreter'' (interpreterInstructions ?up)"
  define st0 where "st0 = \<lparr>run_context = initialContext ?up 10, run_log = [], run_memories = [], run_calls = []\<rparr>"
  define st1 where "st1 = snd (executeSingleAgent ?E ''interpreter'' (interpreterInstructions ?up) ?up st0)"
  define st2 where "st2 = pushLog (targetMark @ '' Workflow determined: '' @ JSON_stringify_indent ?E feedbackPlanJson)
                            (st1\<lparr>run_calls := run_calls st1 @ [planningRequest [] ?up]\<rparr>)"
  define st3 where "st3 = beforeSupervision ?E ?up [] feedbackPlanJson [feedbackStep]"
  define st4 where "st4 = snd (executeSingleAgent ?E ''supervisor'' (supervisorInstructions ?up [] st3) ?up st3)"
  have c0: "run_calls st0 = []" "results (run_context st0) = []"
    by (simp_all add: st0_def initialContext_def)
  have p0: "post ?E (run_calls st0) ?irq = Inr feedbackPlanText" by (simp add: brokenCoder_post c0)
  then have i: "\<not> isl (post ?E [] ?irq)" by (simp add: c0)
  have len1: "length (run_calls st1) = 2"
    unfolding st1_def using executeSingleAgent_calls_length [OF p0] by (simp add: c0)
  have ctx1: "results (run_context st1) = [(''interpreter_result'', feedbackPlanText)]"
    unfolding st1_def by (simp add: executeSingleAgent_context_ok [OF p0] c0)
  have a1: "agentRequests (run_calls st1) = [?irq]"
    unfolding st1_def
    using executeSingleAgent_agentRequests [of ?E "''interpreter''" "interpreterInstructions ?up" ?up st0]
    by (simp add: c0)
  have w: "fst (determineWorkflowFromInterpretation ?E [] ?up (run_calls st1))
             = Inr (feedbackPlanJson, Some [feedbackStep])"
    by (rule brokenCoder_workflow) (simp add: len1)
  have s2: "run_calls st2 = run_calls st1 @ [planningRequest [] ?up]" "run_context st2 = run_context st1"
    by (simp_all add: st2_def pushLog_def)
  have p3: "post ?E (run_calls st2) (singleAgentRequest ''coder'' ''apply the fix needed'') = Inl ''timeout''"
    by (simp add: brokenCoder_post s2 len1)
  have st3: "st3 = executeWorkflow ?E ?up [feedbackStep] st2"
    by (simp add: st3_def beforeSupervision_def Let_def st2_def st1_def st0_def)
  have failed: "\<not> fst (executeSingleAgent ?E ''coder'' ''apply the fix needed'' ?up st2)"
    by (simp add: executeSingleAgent_success p3)
  have st3': "st3 = pushLog (crossMark @ '' Required step '' @ [CHR 0x27] @ ''coder'' @ [CHR 0x27] @
                         '' failed - stopping workflow'')
                  (snd (executeSingleAgent ?E ''coder'' ''apply the fix needed'' ?up st2))"
    unfolding st3 using failed by (simp add: feedbackStep_def case_prod_beta)
  have ctx3: "results (run_context st3) = [(''interpreter_result'', feedbackPlanText)]"
    unfolding st3' by (simp add: executeSingleAgent_failed [OF p3] pushLog_def s2 ctx1)
  have a3: "agentRequests (run_calls st3) = [?irq, singleAgentRequest ''coder'' ''apply the fix needed'']"
    unfolding st3' by (simp add: executeSingleAgent_failed [OF p3] pushLog_def s2 a1)
  have a4: "agentRequests (run_calls st4)
              = [?irq, singleAgentRequest ''coder'' ''apply the fix needed'',
                 singleAgentRequest ''supervisor'' (supervisorInstructions ?up [] st3)]"
    unfolding st4_def
    using executeSingleAgent_agentRequests [of ?E "''supervisor''" "supervisorInstructions ?up [] st3" ?up st3] a3
    by simp
  have w': "fst (determineWorkflowFromInterpretation ?E [] ?up
              (run_calls (snd (executeSingleAgent ?E ''interpreter'' (interpreterInstructions ?up) ?up
                 \<lparr>run_context = initialContext ?up 10, run_log = [], run_memories = [], run_calls = []\<rparr>))))
             = Inr (feedbackPlanJson, Some [feedbackStep])"
    using w by (simp add: st1_def st0_def)
  have run: "snd (executeIntelligentOrchestration ?E ?up []) = run_calls st4"
    by (simp add: orchestration_passed [OF i w'] Let_def st4_def st3_def)
  have j: "JSON_parse ?E feedbackPlanText = Inr feedbackPlanJson"
    "planOf ?E feedbackPlanJson = Some [feedbackStep]"
    by (simp_all add: brokenCoderEnv_def feedbackEnv_def)
  have f: "iterativeFeedback feedbackStep" "feedbackOutput feedbackStep = Some ''interpreter_result''"
    by (simp_all add: feedbackStep_def)
  from j f ctx3 a4 run needsIteration_feedbackPlanText show ?thesis
    unfolding st3_def by simp
qed

text \<open>
  C9, amended. For every planned step the loop reaches, in every state: the role of the
  step is requested with the step's instructions. It is requested once more, with the
  feedback appended to the instructions, exactly when the first request succeeded or the step
  is not required, the step declares iterative feedback, the results then hold its feedback
  key, and the text there contains \<^verbatim>\<open>error\<close>, \<^verbatim>\<open>issues\<close> or \<^verbatim>\<open>fix needed\<close> without regard to
  case. No third request is made. A required step whose request fails ends the loop; any
  other step is followed by the rest of the plan.
\<close>

theorem planned_step_feedback:
  "(let ok = \<not> isl (post E (run_calls st) (singleAgentRequest (planned_agent step) (instructions step)));
        st1 = snd (executeSingleAgent E (planned_agent step) (instructions step) up st);
        feedback = (if iterativeFeedback step
                    then (case feedbackOutput step of
                            None \<Rightarrow> None
                          | Some key \<Rightarrow> map_of (results (run_context st1)) key)
                    else None);
        after = executeWorkflow E up [step] st
    in agentRequests (drop (length (run_calls st)) (run_calls after)) =
         singleAgentRequest (planned_agent step) (instructions step) #
         (case feedback of
            None \<Rightarrow> []
          | Some v \<Rightarrow>
              if (ok \<or> \<not> required step) \<and> needsIteration v
              then [singleAgentRequest (planned_agent step) (iterationInstructions step v)]
              else [])
       \<and> executeWorkflow E up (step # rest) st =
           (if \<not> ok \<and> required step then after else executeWorkflow E up rest after))"
proof -
  let ?r = "planned_agent step"
  let ?first = "executeSingleAgent E ?r (instructions step) up st"
  let ?st1 = "snd ?first"
  let ?ok = "\<not> isl (post E (run_calls st) (singleAgentRequest ?r (instructions step)))"
  have ok: "fst ?first = ?ok" by (rule executeSingleAgent_success)
  obtain m1 where m1: "run_calls ?st1 = run_calls st @ singleAgentRequest ?r (instructions step) # m1"
      "agentRequests m1 = []"
    using executeSingleAgent_new_calls by blast
  have first: "agentRequests (drop (length (run_calls st)) (run_calls ?st1))
                 = [singleAgentRequest ?r (instructions step)]"
    by (rule executeSingleAgent_new_agentRequests)
  have second: "agentRequests (drop (length (run_calls st))
                   (run_calls (snd (executeSingleAgent E ?r i up (pushLog l ?st1)))))
                 = [singleAgentRequest ?r (instructions step), singleAgentRequest ?r i]" for i l
  proof -
    obtain m2 where "run_calls (snd (executeSingleAgent E ?r i up (pushLog l ?st1)))
                       = run_calls (pushLog l ?st1) @ singleAgentRequest ?r i # m2" "agentRequests m2 = []"
      using executeSingleAgent_new_calls by blast
    with m1 show ?thesis
      by (simp add: pushLog_def)
  qed
  have body: "agentRequests (drop (length (run_calls st)) (run_calls (executeWorkflow E up [step] st))) =
         singleAgentRequest ?r (instructions step) #
         (case (if iterativeFeedback step
                then (case feedbackOutput step of
                        None \<Rightarrow> None
                      | Some key \<Rightarrow> map_of (results (run_context ?st1)) key)
                else None) of
            None \<Rightarrow> []
          | Some v \<Rightarrow>
              if (?ok \<or> \<not> required step) \<and> needsIteration v
              then [singleAgentRequest ?r (iterationInstructions step v)]
              else [])"
    using first second ok
    by (auto simp: case_prod_beta iterateStep_def Let_def pushLog_def split: option.splits)
  have loop: "executeWorkflow E up (step # rest) st =
           (if \<not> ?ok \<and> required step then executeWorkflow E up [step] st
            else executeWorkflow E up rest (executeWorkflow E up [step] st))"
    using executeWorkflow_Cons [of E up step rest st] ok by simp
  from body loop show ?thesis by (simp add: Let_def)
qed

theorem planned_step_feedback_witness:
  "\<not> isl (post (stubEnv (constantService ''ok'')) (run_calls reviewedState)
            (singleAgentRequest ''coder'' ''apply the fix needed''))
   \<and> iterativeFeedback feedbackStep
   \<and> map_of (results (run_context (snd (executeSingleAgent (stubEnv (constantService ''ok'')) ''coder''
                ''apply the fix needed'' ''repair the build'' reviewedState)))) ''interpreter_result''
       = Some ''Please FIX the Error in main.ts''
   \<and> needsIteration ''Please FIX the Error in main.ts''
   \<and> agentRequests (run_calls (executeWorkflow (stubEnv (constantService ''ok'')) ''repair the build''
                        [feedbackStep] reviewedState))
       = [singleAgentRequest ''coder'' ''apply the fix needed'',
          singleAgentRequest ''coder''
            (iterationInstructions feedbackStep ''Please FIX the Error in main.ts'')]"
proof -
  let ?E = "stubEnv (constantService ''ok'')"
  have p: "post ?E (run_calls reviewedState) (singleAgentRequest ''coder'' ''apply the fix needed'') = Inr ''ok''"
    by (simp add: constantService_def)
  have r: "map_of (results (run_context (snd (executeSingleAgent ?E ''coder''
                ''apply the fix needed'' ''repair the build'' reviewedState)))) ''interpreter_result''
       = Some ''Please FIX the Error in main.ts''"
    by (subst executeSingleAgent_context_ok [OF p]) (simp add: reviewedState_def)
  have n: "needsIteration ''Please FIX the Error in main.ts''"
    by (simp add: needsIteration_def toLowerCase_def toLowerChar_def)
  have c: "run_calls reviewedState = []" by (simp add: reviewedState_def)
  from planned_step_feedback
         [where E = ?E and st = reviewedState and step = feedbackStep and up = "''repair the build''"
            and rest = "[]"]
  have "agentRequests (run_calls (executeWorkflow ?E ''repair the build'' [feedbackStep] reviewedState))
       = [singleAgentRequest ''coder'' ''apply the fix needed'',
          singleAgentRequest ''coder''
            (iterationInstructions feedbackStep ''Please FIX the Error in main.ts'')]"
    unfolding Let_def using p r n c
    by (simp add: feedbackStep_def)
  with p r n show ?thesis by (simp add: feedbackStep_def)
qed

text \<open>
  C10, as stated, fails: when the interpreter's request fails the final result is the
  message of the failed interpretation, not \<^verbatim>\<open>Workflow completed\<close>.
\<close>

theorem orchestration_final_result_counterexample:
  "fst (executeIntelligentOrchestration (stubEnv (failingService ''timeout'')) ''fix crash on startup'' [])
     = Inr failedInterpretationResult
   \<and> finalResult failedInterpretationResult \<noteq> ''Workflow completed''"
  by (simp add: orchestration_interpretation_failed_example) (simp add: failedInterpretationResult_def)

text \<open>
  C10, amended. Every successful agent execution stores its output under the role followed
  by \<^verbatim>\<open>_result\<close>. In the result of every run that returns, all keys have that form, so
  \<^verbatim>\<open>final_summary\<close> and \<^verbatim>\<open>generated_code\<close> are absent; the final result is
  \<^verbatim>\<open>Workflow completed\<close> when the interpretation has passed, and the message of the failed
  interpretation otherwise.
\<close>

theorem orchestration_final_result:
  "(\<forall>agentRole' i st c.
       post E (run_calls st) (singleAgentRequest agentRole' i) = Inr c \<longrightarrow>
       map_of (results (run_context (snd (executeSingleAgent E agentRole' i up st)))) (agentRole' @ ''_result'')
         = Some (if c = [] then ''No response from Grok'' else c))
   \<and> (fst (executeIntelligentOrchestration E up h) = Inr res \<longrightarrow>
        roleKeys (resultContext res)
        \<and> map_of (results (resultContext res)) ''final_summary'' = None
        \<and> map_of (results (resultContext res)) ''generated_code'' = None
        \<and> finalResult res =
            (if isl (post E h (singleAgentRequest ''interpreter'' (interpreterInstructions up)))
             then ''Interpretation failed - cannot determine next steps''
             else ''Workflow completed''))"
proof (intro conjI allI impI)
  fix agentRole' i c and st :: run
  assume "post E (run_calls st) (singleAgentRequest agentRole' i) = Inr c"
  then show "map_of (results (run_context (snd (executeSingleAgent E agentRole' i up st)))) (agentRole' @ ''_result'')
         = Some (if c = [] then ''No response from Grok'' else c)"
    by (simp add: executeSingleAgent_context_ok update_conv')
next
  assume run: "fst (executeIntelligentOrchestration E up h) = Inr res"
  let ?irq = "singleAgentRequest ''interpreter'' (interpreterInstructions up)"
  let ?st0 = "\<lparr>run_context = initialContext up 10, run_log = [], run_memories = [], run_calls = h\<rparr>"
  let ?st1 = "snd (executeSingleAgent E ''interpreter'' (interpreterInstructions up) up ?st0)"
  have keys: "roleKeys (resultContext res)
        \<and> finalResult res =
            (if isl (post E h ?irq)
             then ''Interpretation failed - cannot determine next steps''
             else ''Workflow completed'')"
  proof (cases "isl (post E h ?irq)")
    case True
    have "roleKeys (run_context ?st1)"
      by (rule executeSingleAgent_roleKeys) (simp add: roleKeys_def initialContext_def)
    with run True show ?thesis
      by (auto simp: orchestration_failed Let_def)
  next
    case False
    show ?thesis
    proof (cases "fst (determineWorkflowFromInterpretation E [] up (run_calls ?st1))")
      case (Inl e)
      with run False show ?thesis by (simp add: orchestration_unfold)
    next
      case (Inr pp)
      show ?thesis
      proof (cases "snd pp")
        case None
        with run Inr False show ?thesis by (simp add: orchestration_unfold)
      next
        case (Some planned)
        let ?st3 = "beforeSupervision E up h (fst pp) planned"
        let ?st4 = "snd (executeSingleAgent E ''supervisor'' (supervisorInstructions up [] ?st3) up ?st3)"
        have k4: "roleKeys (run_context ?st4)"
          by (rule executeSingleAgent_roleKeys) (rule beforeSupervision_roleKeys)
        have res: "resultContext res = run_context ?st4"
           "finalResult res = orElse (map_of (results (run_context ?st4)) ''final_summary'')
                                     (orElse (map_of (results (run_context ?st4)) ''generated_code'')
                                        ''Workflow completed'')"
          using run Inr Some False by (auto simp: orchestration_unfold Let_def)
        show ?thesis
          using k4 roleKeys_no_final_keys [OF k4] False by (simp add: res)
      qed
    qed
  qed
  then show "roleKeys (resultContext res)" 
    and "finalResult res =
            (if isl (post E h ?irq)
             then ''Interpretation failed - cannot determine next steps''
             else ''Workflow completed'')" by simp_all
  from keys roleKeys_no_final_keys [of "resultContext res"]
  show "map_of (results (resultContext res)) ''final_summary'' = None"
    and "map_of (results (resultContext res)) ''generated_code'' = None" by simp_all
qed

theorem orchestration_final_result_witness:
  "post degradedEnv [] (singleAgentRequest ''interpreter'' (interpreterInstructions ''fix crash on startup'')) = Inr ''ok''
   \<and> map_of (results (run_context (snd (executeSingleAgent degradedEnv ''interpreter''
            (interpreterInstructions ''fix crash on startup'') ''fix crash on startup''
            \<lparr>run_context = initialContext ''fix crash on startup'' 10, run_log = [], run_memories = [],
               run_calls = []\<rparr>)))) ''interpreter_result'' = Some ''ok''
   \<and> fst (executeIntelligentOrchestration degradedEnv ''fix crash on startup'' []) = Inr degradedRunResult
   \<and> roleKeys (resultContext degradedRunResult)
   \<and> map_of (results (resultContext degradedRunResult)) ''final_summary'' = None
   \<and> map_of (results (resultContext degradedRunResult)) ''generated_code'' = None
   \<and> finalResult degradedRunResult = ''Workflow completed''"
proof -
  let ?st0 = "\<lparr>run_context = initialContext ''fix crash on startup'' 10, run_log = [], run_memories = [],
               run_calls = []\<rparr>"
  have p: "post degradedEnv (run_calls ?st0)
             (singleAgentRequest ''interpreter'' (interpreterInstructions ''fix crash on startup'')) = Inr ''ok''"
    by (simp add: degradedEnv_def failAt_def)
  note inst = orchestration_final_result
               [where E = degradedEnv and up = "''fix crash on startup''" and h = "[]"
                  and res = degradedRunResult]
  from inst have "post degradedEnv (run_calls ?st0)
             (singleAgentRequest ''interpreter'' (interpreterInstructions ''fix crash on startup'')) = Inr ''ok'' \<longrightarrow>
       map_of (results (run_context (snd (executeSingleAgent degradedEnv ''interpreter''
            (interpreterInstructions ''fix crash on startup'') ''fix crash on startup'' ?st0))))
              (''interpreter'' @ ''_result'') = Some (if ''ok'' = [] then ''No response from Grok'' else ''ok'')"
    by blast
  with p have a: "map_of (results (run_context (snd (executeSingleAgent degradedEnv ''interpreter''
            (interpreterInstructions ''fix crash on startup'') ''fix crash on startup'' ?st0))))
              ''interpreter_result'' = Some ''ok''"
    by simp
  from inst degraded_run degraded_interpreter
  have b: "roleKeys (resultContext degradedRunResult)
        \<and> map_of (results (resultContext degradedRunResult)) ''final_summary'' = None
        \<and> map_of (results (resultContext degradedRunResult)) ''generated_code'' = None
        \<and> finalResult degradedRunResult = ''Workflow completed''"
    by simp
  from a b p degraded_run show ?thesis by simp
qed

section \<open>The step count and the supervisor in the static pipelines\<close>

text \<open>
  In both static executors the step count is the index of the current step plus one, so it
  stays within the number of steps, which is the bound \<open>maxSteps\<close> of these runs.
\<close>

lemma executeStep_counts:
  "stepCount (run_context (snd (executeStep E n i step st))) = i + 1
   \<and> maxSteps (run_context (snd (executeStep E n i step st))) = maxSteps (run_context st)"
  by (simp add: executeStep_def Let_def case_prod_beta pushLog_def pushError_def
           split: sum.splits option.splits)

lemma executeSteps_counts:
  "stepCount (run_context st) \<le> i \<Longrightarrow>
   stepCount (run_context (executeSteps E n i steps' st)) \<le> i + length steps'
   \<and> maxSteps (run_context (executeSteps E n i steps' st)) = maxSteps (run_context st)"
proof (induction steps' arbitrary: i st)
  case Nil
  then show ?case by simp
next
  case (Cons step rest)
  have c: "stepCount (run_context (snd (executeStep E n i step st))) = i + 1"
          "maxSteps (run_context (snd (executeStep E n i step st))) = maxSteps (run_context st)"
    using executeStep_counts by simp_all
  then have "stepCount (run_context (snd (executeStep E n i step st))) \<le> i + 1" by simp
  from Cons.IH [OF this] c show ?case
    by (auto simp: case_prod_beta)
qed

lemma executeStepWithMemory_counts:
  "stepCount (run_context (snd (executeStepWithMemory E up n i step st))) = i + 1
   \<and> maxSteps (run_context (snd (executeStepWithMemory E up n i step st))) = maxSteps (run_context st)"
  by (simp add: executeStepWithMemory_def Let_def case_prod_beta pushLog_def pushError_def
           split: sum.splits option.splits)

lemma executeStepsWithMemory_counts:
  "stepCount (run_context st) \<le> i \<Longrightarrow>
   stepCount (run_context (executeStepsWithMemory E up n i steps' st)) \<le> i + length steps'
   \<and> maxSteps (run_context (executeStepsWithMemory E up n i steps' st)) = maxSteps (run_context st)"
proof (induction steps' arbitrary: i st)
  case Nil
  then show ?case by simp
next
  case (Cons step rest)
  have c: "stepCount (run_context (snd (executeStepWithMemory E up n i step st))) = i + 1"
          "maxSteps (run_context (snd (executeStepWithMemory E up n i step st))) = maxSteps (run_context st)"
    using executeStepWithMemory_counts by simp_all
  then have "stepCount (run_context (snd (executeStepWithMemory E up n i step st))) \<le> i + 1" by simp
  from Cons.IH [OF this] c show ?case
    by auto
qed

lemma static_pipelines_within_maxSteps:
  "(fst (executePipeline E pipelines pipelineId up h) = Inr r \<longrightarrow>
      stepCount (resultContext r) \<le> maxSteps (resultContext r))
   \<and> (fst (executePipelineWithMemory E pipelines memoryStore pipelineId up h) = Inr r' \<longrightarrow>
      stepCount (resultContext r') \<le> maxSteps (resultContext r'))"
proof (intro conjI impI)
  assume run: "fst (executePipeline E pipelines pipelineId up h) = Inr r"
  then obtain p where p: "map_of pipelines pipelineId = Some p" "enabled p"
    by (auto simp: executePipeline_def split: option.splits if_splits)
  have r: "resultContext r = run_context (executeSteps E (length (steps p)) 0 (steps p)
                        \<lparr>run_context = initialContext up (length (steps p)),
                         run_log = [], run_memories = [], run_calls = h\<rparr>)"
    using run p by (auto simp: executePipeline_def Let_def)
  show "stepCount (resultContext r) \<le> maxSteps (resultContext r)"
    unfolding r
    using executeSteps_counts [of "\<lparr>run_context = initialContext up (length (steps p)),
                         run_log = [], run_memories = [], run_calls = h\<rparr>" 0 E "length (steps p)" "steps p"]
    by (simp add: initialContext_def)
next
  assume run: "fst (executePipelineWithMemory E pipelines memoryStore pipelineId up h) = Inr r'"
  then obtain p where p: "map_of pipelines pipelineId = Some p" "enabled p"
    by (auto simp: executePipelineWithMemory_def split: option.splits if_splits)
  have r: "resultContext r' = run_context (executeStepsWithMemory E up (length (steps p)) 0 (steps p)
                        \<lparr>run_context = initialContext up (length (steps p)),
                         run_log = [], run_memories = [], run_calls = h\<rparr>)"
    using run p by (auto simp: executePipelineWithMemory_def Let_def)
  show "stepCount (resultContext r') \<le> maxSteps (resultContext r')"
    unfolding r
    using executeStepsWithMemory_counts [of "\<lparr>run_context = initialContext up (length (steps p)),
                         run_log = [], run_memories = [], run_calls = h\<rparr>" 0 E up "length (steps p)" "steps p"]
    by (simp add: initialContext_def)
qed

text \<open>
  In \<^verbatim>\<open>executePipeline\<close> a failing step of the supervisor ends the loop: whatever follows
  it in the pipeline has no effect on the run.
\<close>

lemma executeSteps_supervisor_stops:
  assumes "role s = ''supervisor''"
  shows "fst (executeStep E n (i + length pre) s (executeSteps E n i pre st)) \<Longrightarrow>
         executeSteps E n i (pre @ s # rest) st = executeSteps E n i (pre @ [s]) st"
proof (induction pre arbitrary: i st)
  case Nil
  then show ?case using assms by (simp add: case_prod_beta)
next
  case (Cons p ps)
  show ?case
  proof (cases "fst (executeStep E n i p st) \<and> role p = ''supervisor''")
    case True
    then show ?thesis by (simp add: case_prod_beta)
  next
    case False
    then have step: "executeSteps E n i (p # xs) st = executeSteps E n (i + 1) xs (snd (executeStep E n i p st))" for xs
      by (auto simp: case_prod_beta)
    from Cons.prems have "fst (executeStep E n ((i + 1) + length ps) s
                                (executeSteps E n (i + 1) ps (snd (executeStep E n i p st))))"
      unfolding step by simp
    from Cons.IH [OF this] show ?thesis
      using step [of "ps @ s # rest"] step [of "ps @ [s]"] by (simp del: executeSteps.simps)
  qed
qed

text \<open>
  In both registered pipelines no step follows the step of the supervisor.
\<close>

lemma registered_roles:
  "map (\<lambda>(k, p). (k, map role (steps p))) initializePipelines =
     [(''code-development'',
       [''interpreter'', ''analysis'', ''retrieval'', ''judge'', ''coder'', ''quality-check'', ''supervisor'']),
      (''analysis-only'', [''analyzer''])]"
  by (simp add: initializePipelines_def createCodeDevelopmentSteps_def createAnalysisSteps_def Let_def)


end
